theory Spec2Isabelle
  imports Main
begin

section \<open>JavaScript values\<close>

text \<open>
  The module \<^verbatim>\<open>src/withData.js\<close> is glue between a GraphQL client library and a
  rendering framework. Its data are plain JavaScript values: page properties, cache
  snapshots and references to client instances. Objects are maps from property names to
  values; a client instance is known by its address in the store of instances.
\<close>

type_synonym addr = nat

datatype jsval =
    JUndefined
  | JNull
  | JBool bool
  | JNum int
  | JStr string
  | JObj "string \<Rightarrow> jsval option"
  | JClient addr

type_synonym obj = "string \<Rightarrow> jsval option"

text \<open>JavaScript's truthiness, as \<^verbatim>\<open>||\<close>, \<^verbatim>\<open>&&\<close> and \<^verbatim>\<open>!\<close> test it.\<close>

fun truthy :: "jsval \<Rightarrow> bool" where
  "truthy JUndefined = False"
| "truthy JNull = False"
| "truthy (JBool b) = b"
| "truthy (JNum n) = (n \<noteq> 0)"
| "truthy (JStr s) = (s \<noteq> [])"
| "truthy (JObj _) = True"
| "truthy (JClient _) = True"

text \<open>\<^verbatim>\<open>a || b\<close> on values.\<close>

definition or_else :: "jsval \<Rightarrow> jsval \<Rightarrow> jsval" where
  "or_else a b = (if truthy a then a else b)"

text \<open>Reading a property: a missing one reads as \<^verbatim>\<open>undefined\<close>.\<close>

definition get_prop :: "obj \<Rightarrow> string \<Rightarrow> jsval" where
  "get_prop ob k = (case ob k of None \<Rightarrow> JUndefined | Some v \<Rightarrow> v)"

text \<open>A default parameter value \<^verbatim>\<open>(x = d)\<close> applies when the argument is \<^verbatim>\<open>undefined\<close>.\<close>

definition default_param :: "jsval \<Rightarrow> jsval \<Rightarrow> jsval" where
  "default_param v d = (if v = JUndefined then d else v)"

text \<open>The rest pattern \<^verbatim>\<open>{ a, b, ...others }\<close>: the object without the named keys.\<close>

definition rest_without :: "obj \<Rightarrow> string set \<Rightarrow> obj" where
  "rest_without ob ks = (\<lambda>k. if k \<in> ks then None else ob k)"

datatype error = Thrown jsval | TypeError string | InvariantError string

section \<open>The cache library\<close>

text \<open>
  Caches are mutable objects of the client library (\<^verbatim>\<open>InMemoryCache\<close> of apollo-boost).
  The store holds the normalized data of every cache instance, an object, by address. As
  in the library, \<^verbatim>\<open>restore(data)\<close> does nothing when \<^verbatim>\<open>data\<close> is falsy, and otherwise
  replaces the data by the own enumerable properties of \<^verbatim>\<open>data\<close> (it sets every key of
  \<^verbatim>\<open>Object.keys(data)\<close> and deletes the others); it returns the cache itself.
  \<^verbatim>\<open>extract()\<close> returns the data as an object.
\<close>

record cache_store =
  cache_data :: "addr \<Rightarrow> obj"
  next_cache :: addr

definition new_InMemoryCache :: "cache_store \<Rightarrow> addr \<times> cache_store" where
  "new_InMemoryCache s =
     (next_cache s,
      s\<lparr>cache_data := (cache_data s)(next_cache s := Map.empty),
        next_cache := Suc (next_cache s)\<rparr>)"

text \<open>The key of an index, in decimal, as \<^verbatim>\<open>Object.keys\<close> of a string gives it.\<close>

fun index_key :: "nat \<Rightarrow> string" where
  "index_key n =
     (if n < 10 then [''0123456789'' ! n]
      else index_key (n div 10) @ [''0123456789'' ! (n mod 10)])"

text \<open>
  The own enumerable properties of a value: those of an object; none for a number or a
  boolean; one for every character of a string, under its index. Those of a client
  instance are the client library's own: they are a parameter (\<open>instance_props\<close>).
\<close>

fun own_props :: "(addr \<Rightarrow> obj) \<Rightarrow> jsval \<Rightarrow> obj" where
  "own_props ip (JObj m) = m"
| "own_props ip (JStr s) =
     map_of (zip (map index_key [0..<length s]) (map (\<lambda>c. JStr [c]) s))"
| "own_props ip (JClient c) = ip c"
| "own_props ip _ = Map.empty"

definition cache_restore ::
  "(addr \<Rightarrow> obj) \<Rightarrow> jsval \<Rightarrow> addr \<Rightarrow> cache_store \<Rightarrow> addr \<times> cache_store" where
  "cache_restore ip data a s =
     (a, if truthy data then s\<lparr>cache_data := (cache_data s)(a := own_props ip data)\<rparr> else s)"

definition cache_extract :: "addr \<Rightarrow> cache_store \<Rightarrow> jsval" where
  "cache_extract a s = JObj (cache_data s a)"

section \<open>Configuration, request context, components\<close>

text \<open>
  The client options are an object. Besides plain values, a key can hold a function of no
  arguments (as \<^verbatim>\<open>createCache\<close> does: user code that returns a cache, may allocate one
  and may throw) or a cache instance (as \<^verbatim>\<open>cache\<close> does).
\<close>

type_synonym factory = "cache_store \<Rightarrow> (error + addr) \<times> cache_store"

datatype optval =
    Factory factory
  | Cache addr
  | Value jsval

type_synonym config = "string \<Rightarrow> optval option"

fun opt_truthy :: "optval \<Rightarrow> bool" where
  "opt_truthy (Factory _) = True"
| "opt_truthy (Cache _) = True"
| "opt_truthy (Value v) = truthy v"

definition get_opt :: "config \<Rightarrow> string \<Rightarrow> optval" where
  "get_opt cfg k = (case cfg k of None \<Rightarrow> Value JUndefined | Some v \<Rightarrow> v)"

record response =
  finished :: bool

record request_context =
  AppTree :: string
  res :: "response option"
  ctx_apolloClient :: "addr option"
  ctx_others :: obj

text \<open>
  The argument of the exported factory: a configuration, or a function producing one
  from the request context (which is \<^verbatim>\<open>undefined\<close>, here \<open>None\<close>, when the component
  itself initializes the client). The function is user code: it may throw, and it may
  make caches.
\<close>

datatype apollo_config =
    ConfigObject config
  | ConfigFunction "request_context option \<Rightarrow> cache_store \<Rightarrow> (error + config) \<times> cache_store"

datatype element = Element string obj

text \<open>
  The wrapped page component: its names and its optional \<^verbatim>\<open>getServerSideProps\<close>, which
  is user code: it may throw, may write to the caches through the client of the context,
  and may end the response (a redirect).
\<close>

record page =
  page_displayName :: "string option"
  page_name :: string
  page_getServerSideProps ::
    "(request_context \<Rightarrow> cache_store \<Rightarrow> (error + obj) \<times> request_context \<times> cache_store) option"

text \<open>\<^verbatim>\<open><ApolloProvider client={client}><PageComponent {...pageProps} /></ApolloProvider>\<close>\<close>

datatype rendered = ApolloProvider jsval page obj

section \<open>The runtime and the state of the process\<close>

text \<open>
  What the module reads from its environment: whether \<^verbatim>\<open>typeof window\<close> is
  \<^verbatim>\<open>'undefined'\<close> (a server), whether \<^verbatim>\<open>NODE_ENV\<close> is \<^verbatim>\<open>'production'\<close>,
  \<^verbatim>\<open>getDataFromTree\<close> of \<^verbatim>\<open>@apollo/react-ssr\<close>, which renders the tree, runs its
  queries into the caches and may throw, and the own enumerable properties of the client
  instances.
\<close>

record runtime =
  window_undefined :: bool
  production :: bool
  getDataFromTree :: "element \<Rightarrow> cache_store \<Rightarrow> error option \<times> cache_store"
  instance_props :: "addr \<Rightarrow> obj"

datatype event =
    ConsoleWarn string
  | ConsoleError string error
  | HeadRewind
  | GetDataFromTree element

text \<open>
  The state: the module variable \<^verbatim>\<open>apolloClient\<close> (\<open>None\<close> is \<^verbatim>\<open>null\<close>), the client
  instances constructed so far with the options each was constructed from (an instance
  is its index), the caches, and the calls made to the console, to \<^verbatim>\<open>Head.rewind\<close> and
  to \<^verbatim>\<open>getDataFromTree\<close>, in order.
\<close>

record world =
  apolloClient :: "addr option"
  clients :: "config list"
  caches :: cache_store
  trace :: "event list"

definition initial_world :: world where
  "initial_world =
     \<lparr>apolloClient = None, clients = [],
      caches = \<lparr>cache_data = (\<lambda>_. Map.empty), next_cache = 0\<rparr>, trace = []\<rparr>"

text \<open>
  \<^verbatim>\<open>new ApolloClient(options)\<close>, the class of apollo-client that apollo-boost exports
  under this name. Its constructor takes an empty link when there is none but there are
  \<^verbatim>\<open>resolvers\<close>, and throws an invariant violation unless it then has a link and a cache:
  \<^verbatim>\<open>if (!link && resolvers) link = ApolloLink.empty(); if (!link || !cache) throw ...\<close>.
  Otherwise there is a new instance, whose \<^verbatim>\<open>cache\<close> property is the \<^verbatim>\<open>cache\<close> of the
  options.
\<close>

definition accepted :: "config \<Rightarrow> bool" where
  "accepted options =
     ((opt_truthy (get_opt options ''link'') \<or> opt_truthy (get_opt options ''resolvers'')) \<and>
      opt_truthy (get_opt options ''cache''))"

definition new_ApolloClient :: "config \<Rightarrow> world \<Rightarrow> (error + addr) \<times> world" where
  "new_ApolloClient options w =
     (if accepted options
      then (Inr (length (clients w)), w\<lparr>clients := clients w @ [options]\<rparr>)
      else (Inl (InvariantError
                   ''In order to initialize Apollo Client, you need to specify 'link' and 'cache' properties in the options object.''),
            w))"

section \<open>The module\<close>

text \<open>\<^verbatim>\<open>const createDefaultCache = () => new InMemoryCache()\<close>\<close>

definition createDefaultCache :: factory where
  "createDefaultCache s = (let (a, s') = new_InMemoryCache s in (Inr a, s'))"

text \<open>\<^verbatim>\<open>apolloConfig.createCache || createDefaultCache\<close>\<close>

definition cache_factory :: "config \<Rightarrow> optval" where
  "cache_factory apolloConfig =
     (if opt_truthy (get_opt apolloConfig ''createCache'')
      then get_opt apolloConfig ''createCache''
      else Factory createDefaultCache)"

text \<open>Calling it: what is not a function cannot be called.\<close>

definition call_factory :: "optval \<Rightarrow> factory" where
  "call_factory v s =
     (case v of
        Factory f \<Rightarrow> f s
      | _ \<Rightarrow> (Inl (TypeError ''createCache is not a function''), s))"

text \<open>
  The object \<^verbatim>\<open>config\<close> of \<^verbatim>\<open>createApolloClient\<close>, once the cache \<open>c\<close> is made and
  restored: \<^verbatim>\<open>{ ssrMode: ..., cache: ..., ...apolloConfig }\<close>, then
  \<^verbatim>\<open>delete config.createCache\<close>.
\<close>

definition constructor_options :: "runtime \<Rightarrow> config \<Rightarrow> addr \<Rightarrow> config" where
  "constructor_options rt apolloConfig c =
     ([''ssrMode'' \<mapsto> Value (JBool (window_undefined rt)), ''cache'' \<mapsto> Cache c] ++ apolloConfig)
       (''createCache'' := None)"

definition createApolloClient ::
  "runtime \<Rightarrow> config \<Rightarrow> jsval \<Rightarrow> world \<Rightarrow> (error + addr) \<times> world" where
  "createApolloClient rt apolloConfig initialState0 w =
     (let initialState = default_param initialState0 (JObj Map.empty);
          createCache = cache_factory apolloConfig
      in case call_factory createCache (caches w) of
           (Inl err, s1) \<Rightarrow> (Inl err, w\<lparr>caches := s1\<rparr>)
         | (Inr c, s1) \<Rightarrow>
             (let (c', s2) = cache_restore (instance_props rt)
                               (or_else initialState (JObj Map.empty)) c s1
              in new_ApolloClient (constructor_options rt apolloConfig c') (w\<lparr>caches := s2\<rparr>)))"

text \<open>\<^verbatim>\<open>if (isFunction(apolloConfig)) apolloConfig = apolloConfig(context)\<close>\<close>

definition resolve_config ::
  "apollo_config \<Rightarrow> request_context option \<Rightarrow> cache_store \<Rightarrow> (error + config) \<times> cache_store" where
  "resolve_config apolloConfig ctx s =
     (case apolloConfig of
        ConfigFunction f \<Rightarrow> f ctx s
      | ConfigObject cfg \<Rightarrow> (Inr cfg, s))"

definition initApolloClient ::
  "runtime \<Rightarrow> apollo_config \<Rightarrow> jsval \<Rightarrow> request_context option \<Rightarrow> world \<Rightarrow>
     (error + addr) \<times> world" where
  "initApolloClient rt apolloConfig0 initialState0 ctx w =
     (let initialState = default_param initialState0 (JObj Map.empty)
      in case resolve_config apolloConfig0 ctx (caches w) of
           (Inl err, s0) \<Rightarrow> (Inl err, w\<lparr>caches := s0\<rparr>)
         | (Inr apolloConfig, s0) \<Rightarrow>
             if window_undefined rt
             then createApolloClient rt apolloConfig initialState (w\<lparr>caches := s0\<rparr>)
             else (case apolloClient w of
                     None \<Rightarrow>
                       (case createApolloClient rt apolloConfig initialState (w\<lparr>caches := s0\<rparr>) of
                          (Inl err, w') \<Rightarrow> (Inl err, w')
                        | (Inr c, w') \<Rightarrow> (Inr c, w'\<lparr>apolloClient := Some c\<rparr>))
                   | Some c \<Rightarrow> (Inr c, w\<lparr>caches := s0\<rparr>)))"

text \<open>
  The data-fetching pass of the hook: the \<^verbatim>\<open>try\<close> block around \<^verbatim>\<open>getDataFromTree\<close>,
  its \<^verbatim>\<open>catch\<close>, which logs the error and goes on, and \<^verbatim>\<open>Head.rewind()\<close> after it.
\<close>

definition getDataFromTree_pass :: "runtime \<Rightarrow> string \<Rightarrow> obj \<Rightarrow> addr \<Rightarrow> world \<Rightarrow> world" where
  "getDataFromTree_pass rt appTree pageProps client w =
     (let tree = Element appTree
                   [''pageProps'' \<mapsto> JObj (pageProps(''apolloClient'' \<mapsto> JClient client))];
          (r, s') = getDataFromTree rt tree (caches w);
          w1 = w\<lparr>caches := s', trace := trace w @ [GetDataFromTree tree]\<rparr>;
          w2 = (case r of
                  None \<Rightarrow> w1
                | Some err \<Rightarrow>
                    w1\<lparr>trace := trace w1 @
                       [ConsoleError ''Error while running `getDataFromTree`'' err]\<rparr>)
      in w2\<lparr>trace := trace w2 @ [HeadRewind]\<rparr>)"

text \<open>
  The cache of a client instance, when it is one: the \<^verbatim>\<open>cache\<close> it was constructed
  with.
\<close>

definition client_cache :: "world \<Rightarrow> addr \<Rightarrow> addr option" where
  "client_cache w client =
     (if client < length (clients w) then
        (case get_opt (clients w ! client) ''cache'' of
           Cache a \<Rightarrow> Some a
         | _ \<Rightarrow> None)
      else None)"

text \<open>
  \<^verbatim>\<open>apolloClient.cache.extract()\<close>; on what is not a cache there is no \<^verbatim>\<open>extract\<close> to
  call.
\<close>

definition client_cache_extract :: "addr \<Rightarrow> world \<Rightarrow> error + jsval" where
  "client_cache_extract client w =
     (case client_cache w client of
        Some a \<Rightarrow> Inr (cache_extract a (caches w))
      | None \<Rightarrow> Inl (TypeError ''apolloClient.cache.extract is not a function''))"

text \<open>\<^verbatim>\<open>context.res && context.res.finished\<close>\<close>

definition res_finished :: "request_context \<Rightarrow> bool" where
  "res_finished ctx = (case res ctx of None \<Rightarrow> False | Some r \<Rightarrow> finished r)"

text \<open>The end of the hook: extract the cache and return \<^verbatim>\<open>{ ...pageProps, apolloState }\<close>.\<close>

definition extract_and_return ::
  "obj \<Rightarrow> addr \<Rightarrow> request_context \<Rightarrow> world \<Rightarrow> (error + obj) \<times> request_context \<times> world" where
  "extract_and_return pageProps client ctx w =
     (case client_cache_extract client w of
        Inl err \<Rightarrow> (Inl err, ctx, w)
      | Inr apolloState \<Rightarrow> (Inr (pageProps(''apolloState'' \<mapsto> apolloState)), ctx, w))"

text \<open>
  \<^verbatim>\<open>let pageProps = {}\<close>, replaced by what \<^verbatim>\<open>PageComponent.getServerSideProps(context)\<close>
  returns when the page defines it.
\<close>

definition wrapped_getServerSideProps ::
  "page \<Rightarrow> request_context \<Rightarrow> cache_store \<Rightarrow> (error + obj) \<times> request_context \<times> cache_store" where
  "wrapped_getServerSideProps PageComponent ctx s =
     (case page_getServerSideProps PageComponent of
        None \<Rightarrow> (Inr Map.empty, ctx, s)
      | Some g \<Rightarrow> g ctx s)"

text \<open>
  \<^verbatim>\<open>WithApollo.getServerSideProps\<close>. It returns what the caller gets (the properties, or
  the error thrown), the context object as the call leaves it, and the state.
\<close>

definition WithApollo_getServerSideProps ::
  "runtime \<Rightarrow> apollo_config \<Rightarrow> page \<Rightarrow> bool \<Rightarrow> request_context \<Rightarrow> world \<Rightarrow>
     (error + obj) \<times> request_context \<times> world" where
  "WithApollo_getServerSideProps rt apolloConfig PageComponent ssr ctx w =
     (let appTree = AppTree ctx
      in case initApolloClient rt apolloConfig JNull (Some ctx) w of
           (Inl err, w1) \<Rightarrow> (Inl err, ctx, w1)
         | (Inr client, w1) \<Rightarrow>
             (let ctx1 = ctx\<lparr>ctx_apolloClient := Some client\<rparr>;
                  (r, ctx2, s2) = wrapped_getServerSideProps PageComponent ctx1 (caches w1);
                  w2 = w1\<lparr>caches := s2\<rparr>
              in case r of
                   Inl err \<Rightarrow> (Inl err, ctx2, w2)
                 | Inr pageProps \<Rightarrow>
                     if window_undefined rt then
                       if res_finished ctx2 then (Inr pageProps, ctx2, w2)
                       else
                         extract_and_return pageProps client ctx2
                           (if ssr then getDataFromTree_pass rt appTree pageProps client w2
                            else w2)
                     else extract_and_return pageProps client ctx2 w2))"

text \<open>
  \<^verbatim>\<open>useMemo(compute, [])\<close> of the rendering library: a component instance keeps the
  value computed at the render that mounts it (\<open>memo\<close> is \<open>None\<close> until then) and
  later renders return it without computing. A \<open>compute\<close> that throws leaves nothing
  memoized.
\<close>

definition useMemo ::
  "(world \<Rightarrow> (error + 'a) \<times> world) \<Rightarrow> 'a option \<Rightarrow> world \<Rightarrow> (error + 'a) \<times> 'a option \<times> world" where
  "useMemo compute memo w =
     (case memo of
        Some v \<Rightarrow> (Inr v, memo, w)
      | None \<Rightarrow>
          (case compute w of
             (Inl err, w') \<Rightarrow> (Inl err, None, w')
           | (Inr v, w') \<Rightarrow> (Inr v, Some v, w')))"

text \<open>
  The component \<^verbatim>\<open>WithApollo\<close>: one render of an instance whose memoized client is
  \<open>memo\<close>. It returns the element rendered (or the error thrown), the memoized client
  and the state.
\<close>

definition WithApollo ::
  "runtime \<Rightarrow> apollo_config \<Rightarrow> page \<Rightarrow> obj \<Rightarrow> jsval option \<Rightarrow> world \<Rightarrow>
     (error + rendered) \<times> jsval option \<times> world" where
  "WithApollo rt apolloConfig PageComponent props memo w =
     (let apolloClient' = get_prop props ''apolloClient'';
          apolloState = get_prop props ''apolloState'';
          pageProps = rest_without props {''apolloClient'', ''apolloState''}
      in case useMemo
                (\<lambda>v. if truthy apolloClient' then (Inr apolloClient', v)
                      else (case initApolloClient rt apolloConfig apolloState None v of
                              (Inl err, v') \<Rightarrow> (Inl err, v')
                            | (Inr c, v') \<Rightarrow> (Inr (JClient c), v')))
                memo w of
           (Inl err, memo', w') \<Rightarrow> (Inl err, memo', w')
         | (Inr client, memo', w') \<Rightarrow>
             (Inr (ApolloProvider client PageComponent pageProps), memo', w'))"

text \<open>The decorator \<^verbatim>\<open>(PageComponent, { ssr = true } = {}) => ...\<close>.\<close>

record options =
  opt_ssr :: "bool option"





section \<open>Sequences of calls\<close>

text \<open>
  Calls to \<^verbatim>\<open>initApolloClient\<close> one after another in one process, each with its own
  arguments: the result of each (an instance or an error), in order, and the state after
  the last call.
\<close>

fun initApolloClient_calls ::
  "runtime \<Rightarrow> (apollo_config \<times> jsval \<times> request_context option) list \<Rightarrow> world \<Rightarrow>
     (error + addr) list \<times> world" where
  "initApolloClient_calls rt [] w = ([], w)"
| "initApolloClient_calls rt ((apolloConfig, initialState, ctx) # calls) w =
     (let (r, w1) = initApolloClient rt apolloConfig initialState ctx w;
          (rs, w2) = initApolloClient_calls rt calls w1
      in (r # rs, w2))"

text \<open>The instances among the results.\<close>

fun returned_clients :: "(error + addr) list \<Rightarrow> addr list" where
  "returned_clients [] = []"
| "returned_clients (Inr c # rs) = c # returned_clients rs"
| "returned_clients (Inl _ # rs) = returned_clients rs"

section \<open>Concrete inputs\<close>

text \<open>
  Configurations with a link, as the constructor requires: a plain one; one with its own
  \<^verbatim>\<open>createCache\<close> and \<^verbatim>\<open>ssrMode\<close>; one that supplies its \<^verbatim>\<open>cache\<close>; and a function that chooses between
  the first two by the request context.
\<close>

definition http_link :: optval where
  "http_link = Value (JObj [''uri'' \<mapsto> JStr ''/graphql''])"

definition plain_config :: config where
  "plain_config = [''link'' \<mapsto> http_link]"

definition custom_config :: config where
  "custom_config =
     [''link'' \<mapsto> http_link, ''createCache'' \<mapsto> Factory createDefaultCache,
      ''ssrMode'' \<mapsto> Value (JBool False)]"

definition config_with_cache :: config where
  "config_with_cache = [''link'' \<mapsto> http_link, ''cache'' \<mapsto> Cache 0]"

definition config_by_context :: "request_context option \<Rightarrow> cache_store \<Rightarrow> (error + config) \<times> cache_store" where
  "config_by_context c s = (Inr (case c of None \<Rightarrow> plain_config | Some _ \<Rightarrow> custom_config), s)"

text \<open>
  Runtimes: a server where \<^verbatim>\<open>getDataFromTree\<close> throws, a server where it fetches a query
  result into the cache at address 0, and a browser.
\<close>

definition failing_runtime :: runtime where
  "failing_runtime =
     \<lparr>window_undefined = True, production = False,
      getDataFromTree = (\<lambda>tree s. (Some (Thrown (JStr ''Network error'')), s)),
      instance_props = (\<lambda>_. Map.empty)\<rparr>"

definition fetching_runtime :: runtime where
  "fetching_runtime =
     \<lparr>window_undefined = True, production = False,
      getDataFromTree =
        (\<lambda>tree s. (None, s\<lparr>cache_data := (cache_data s)(0 := [''ROOT_QUERY'' \<mapsto> JNum 1])\<rparr>)),
      instance_props = (\<lambda>_. Map.empty)\<rparr>"

definition browser_runtime :: runtime where
  "browser_runtime =
     \<lparr>window_undefined = False, production = False,
      getDataFromTree = (\<lambda>tree s. (None, s)),
      instance_props = (\<lambda>_. Map.empty)\<rparr>"

text \<open>
  Pages: one without \<^verbatim>\<open>getServerSideProps\<close>, one whose \<^verbatim>\<open>getServerSideProps\<close> ends the
  response (a redirect), and one whose \<^verbatim>\<open>getServerSideProps\<close> returns a property.
\<close>

definition plain_page :: page where
  "plain_page =
     \<lparr>page_displayName = None, page_name = ''Index'', page_getServerSideProps = None\<rparr>"

definition redirecting_page :: page where
  "redirecting_page =
     \<lparr>page_displayName = None, page_name = ''Login'',
      page_getServerSideProps =
        Some (\<lambda>ctx s. (Inr [''user'' \<mapsto> JNull], ctx\<lparr>res := Some \<lparr>finished = True\<rparr>\<rparr>, s))\<rparr>"

definition profile_page :: page where
  "profile_page =
     \<lparr>page_displayName = Some ''Profile'', page_name = ''Profile'',
      page_getServerSideProps = Some (\<lambda>ctx s. (Inr [''id'' \<mapsto> JNum 42], ctx, s))\<rparr>"

text \<open>A request context, and a process in which one cache has been made already.\<close>

definition example_context :: request_context where
  "example_context =
     \<lparr>AppTree = ''App'', res = Some \<lparr>finished = False\<rparr>, ctx_apolloClient = None,
      ctx_others = Map.empty\<rparr>"

definition world_with_cache :: world where
  "world_with_cache = initial_world\<lparr>caches := snd (new_InMemoryCache (caches initial_world))\<rparr>"





lemmas example_defs =
  http_link_def plain_config_def custom_config_def config_with_cache_def config_by_context_def
  failing_runtime_def fetching_runtime_def browser_runtime_def plain_page_def
  redirecting_page_def profile_page_def example_context_def
  initial_world_def world_with_cache_def

lemmas module_defs =
  initApolloClient_def resolve_config_def createApolloClient_def cache_factory_def
  call_factory_def constructor_options_def new_ApolloClient_def accepted_def get_opt_def
  createDefaultCache_def new_InMemoryCache_def cache_restore_def cache_extract_def
  or_else_def default_param_def wrapped_getServerSideProps_def res_finished_def get_prop_def
  client_cache_def

section \<open>Facts about client creation\<close>

lemma new_ApolloClient_accepted:
  "accepted options \<Longrightarrow>
     new_ApolloClient options w = (Inr (length (clients w)), w\<lparr>clients := clients w @ [options]\<rparr>)"
  by (simp add: new_ApolloClient_def)

lemma new_ApolloClient_cases:
  "(\<exists>err. new_ApolloClient options w = (Inl err, w) \<and> \<not> accepted options) \<or>
   (new_ApolloClient options w = (Inr (length (clients w)), w\<lparr>clients := clients w @ [options]\<rparr>) \<and>
    accepted options)"
  by (simp add: new_ApolloClient_def)

lemma createApolloClient_eq:
  "createApolloClient rt cfg st w =
     (case call_factory (cache_factory cfg) (caches w) of
        (Inl err, s1) \<Rightarrow> (Inl err, w\<lparr>caches := s1\<rparr>)
      | (Inr a, s1) \<Rightarrow>
          new_ApolloClient (constructor_options rt cfg a)
            (w\<lparr>caches := snd (cache_restore (instance_props rt)
                                (or_else (default_param st (JObj Map.empty)) (JObj Map.empty)) a s1)\<rparr>))"
  by (simp add: createApolloClient_def Let_def cache_restore_def split: prod.split sum.split)

lemma createApolloClient_creates:
  assumes "call_factory (cache_factory cfg) (caches w) = (Inr a, s1)"
    and "accepted (constructor_options rt cfg a)"
  shows "createApolloClient rt cfg st w =
     (Inr (length (clients w)),
      w\<lparr>caches := snd (cache_restore (instance_props rt)
                        (or_else (default_param st (JObj Map.empty)) (JObj Map.empty)) a s1),
        clients := clients w @ [constructor_options rt cfg a]\<rparr>)"
  using assms by (simp add: createApolloClient_eq new_ApolloClient_accepted)

text \<open>Whatever the configuration: an error and no instance, or one new instance.\<close>

lemma createApolloClient_cases:
  "(\<exists>err s. createApolloClient rt cfg st w = (Inl err, w\<lparr>caches := s\<rparr>)) \<or>
   (\<exists>s options. createApolloClient rt cfg st w =
      (Inr (length (clients w)), w\<lparr>caches := s, clients := clients w @ [options]\<rparr>) \<and>
      accepted options)"
proof (cases "call_factory (cache_factory cfg) (caches w)")
  case (Pair r s1)
  show ?thesis
  proof (cases r)
    case (Inl err)
    with Pair have "createApolloClient rt cfg st w = (Inl err, w\<lparr>caches := s1\<rparr>)"
      by (simp add: createApolloClient_eq)
    then show ?thesis by blast
  next
    case (Inr a)
    let ?w = "w\<lparr>caches := snd (cache_restore (instance_props rt)
                                (or_else (default_param st (JObj Map.empty)) (JObj Map.empty)) a s1)\<rparr>"
    from Pair Inr have e: "createApolloClient rt cfg st w =
        new_ApolloClient (constructor_options rt cfg a) ?w"
      by (simp add: createApolloClient_eq)
    from new_ApolloClient_cases[of "constructor_options rt cfg a" ?w] show ?thesis
      unfolding e by auto
  qed
qed

lemma createApolloClient_set_handle:
  "createApolloClient rt cfg st (w\<lparr>apolloClient := h\<rparr>) =
     (fst (createApolloClient rt cfg st w), (snd (createApolloClient rt cfg st w))\<lparr>apolloClient := h\<rparr>)"
  by (cases w)
    (simp add: createApolloClient_eq new_ApolloClient_def split: prod.split sum.split)



lemma initApolloClient_unresolved:
  "resolve_config acfg ctx (caches w) = (Inl err, s0) \<Longrightarrow>
     initApolloClient rt acfg st ctx w = (Inl err, w\<lparr>caches := s0\<rparr>)"
  by (simp add: initApolloClient_def)

lemma initApolloClient_server:
  "window_undefined rt \<Longrightarrow> resolve_config acfg ctx (caches w) = (Inr cfg, s0) \<Longrightarrow>
     initApolloClient rt acfg st ctx w =
       createApolloClient rt cfg (default_param st (JObj Map.empty)) (w\<lparr>caches := s0\<rparr>)"
  by (simp add: initApolloClient_def)

lemma initApolloClient_browser_first:
  "\<not> window_undefined rt \<Longrightarrow> apolloClient w = None \<Longrightarrow>
   resolve_config acfg ctx (caches w) = (Inr cfg, s0) \<Longrightarrow>
     initApolloClient rt acfg st ctx w =
       (case createApolloClient rt cfg (default_param st (JObj Map.empty)) (w\<lparr>caches := s0\<rparr>) of
          (Inl err, w') \<Rightarrow> (Inl err, w')
        | (Inr c, w') \<Rightarrow> (Inr c, w'\<lparr>apolloClient := Some c\<rparr>))"
  by (simp add: initApolloClient_def)

lemma initApolloClient_browser_reuse:
  "\<not> window_undefined rt \<Longrightarrow> apolloClient w = Some c \<Longrightarrow>
     initApolloClient rt acfg st ctx w =
       (case resolve_config acfg ctx (caches w) of
          (Inl err, s0) \<Rightarrow> (Inl err, w\<lparr>caches := s0\<rparr>)
        | (Inr cfg, s0) \<Rightarrow> (Inr c, w\<lparr>caches := s0\<rparr>))"
  by (simp add: initApolloClient_def split: prod.split sum.split)

lemma initApolloClient_server_cases:
  assumes "window_undefined rt"
  shows "(\<exists>err s. initApolloClient rt acfg st ctx w = (Inl err, w\<lparr>caches := s\<rparr>)) \<or>
         (\<exists>s options. initApolloClient rt acfg st ctx w =
            (Inr (length (clients w)), w\<lparr>caches := s, clients := clients w @ [options]\<rparr>) \<and>
            accepted options)"
proof (cases "resolve_config acfg ctx (caches w)")
  case (Pair r s0)
  show ?thesis
  proof (cases r)
    case (Inl err)
    with Pair have "initApolloClient rt acfg st ctx w = (Inl err, w\<lparr>caches := s0\<rparr>)"
      by (simp add: initApolloClient_unresolved)
    then show ?thesis by blast
  next
    case (Inr cfg)
    with Pair assms have e: "initApolloClient rt acfg st ctx w =
        createApolloClient rt cfg (default_param st (JObj Map.empty)) (w\<lparr>caches := s0\<rparr>)"
      by (simp add: initApolloClient_server)
    from createApolloClient_cases[of rt cfg "default_param st (JObj Map.empty)" "w\<lparr>caches := s0\<rparr>"]
    show ?thesis unfolding e by auto
  qed
qed

lemma initApolloClient_browser_null_cases:
  assumes "\<not> window_undefined rt" and "apolloClient w = None"
  shows "(\<exists>err s. initApolloClient rt acfg st ctx w = (Inl err, w\<lparr>caches := s\<rparr>)) \<or>
         (\<exists>s options. initApolloClient rt acfg st ctx w =
            (Inr (length (clients w)),
             w\<lparr>caches := s, clients := clients w @ [options],
               apolloClient := Some (length (clients w))\<rparr>) \<and>
            accepted options)"
proof (cases "resolve_config acfg ctx (caches w)")
  case (Pair r s0)
  show ?thesis
  proof (cases r)
    case (Inl err)
    with Pair have "initApolloClient rt acfg st ctx w = (Inl err, w\<lparr>caches := s0\<rparr>)"
      by (simp add: initApolloClient_unresolved)
    then show ?thesis by blast
  next
    case (Inr cfg)
    with Pair assms have e: "initApolloClient rt acfg st ctx w =
        (case createApolloClient rt cfg (default_param st (JObj Map.empty)) (w\<lparr>caches := s0\<rparr>) of
          (Inl err, w') \<Rightarrow> (Inl err, w')
        | (Inr c, w') \<Rightarrow> (Inr c, w'\<lparr>apolloClient := Some c\<rparr>))"
      by (simp add: initApolloClient_browser_first)
    from createApolloClient_cases[of rt cfg "default_param st (JObj Map.empty)" "w\<lparr>caches := s0\<rparr>"]
    show ?thesis unfolding e by auto
  qed
qed

lemma initApolloClient_browser_set_cases:
  assumes "\<not> window_undefined rt" and "apolloClient w = Some c"
  shows "(\<exists>err s. initApolloClient rt acfg st ctx w = (Inl err, w\<lparr>caches := s\<rparr>)) \<or>
         (\<exists>s. initApolloClient rt acfg st ctx w = (Inr c, w\<lparr>caches := s\<rparr>))"
  unfolding initApolloClient_browser_reuse[OF assms]
  by (auto split: prod.split sum.split)

lemma initApolloClient_trace:
  "trace (snd (initApolloClient rt acfg st ctx w)) = trace w"
proof (cases "window_undefined rt")
  case True
  from initApolloClient_server_cases[OF True, of acfg st ctx w] show ?thesis by auto
next
  case False
  show ?thesis
  proof (cases "apolloClient w")
    case None
    from initApolloClient_browser_null_cases[OF False None, of acfg st ctx] show ?thesis by auto
  next
    case (Some c)
    from initApolloClient_browser_set_cases[OF False Some, of acfg st ctx] show ?thesis by auto
  qed
qed

lemma initApolloClient_set_handle:
  assumes "window_undefined rt"
  shows "initApolloClient rt acfg st ctx (w\<lparr>apolloClient := h\<rparr>) =
     (fst (initApolloClient rt acfg st ctx w), (snd (initApolloClient rt acfg st ctx w))\<lparr>apolloClient := h\<rparr>)"
proof (cases "resolve_config acfg ctx (caches w)")
  case (Pair r s0)
  have o: "(w\<lparr>apolloClient := h\<rparr>)\<lparr>caches := s0\<rparr> = (w\<lparr>caches := s0\<rparr>)\<lparr>apolloClient := h\<rparr>"
    by (cases w) simp
  show ?thesis
  proof (cases r)
    case (Inl err)
    with Pair have "initApolloClient rt acfg st ctx w = (Inl err, w\<lparr>caches := s0\<rparr>)"
      "initApolloClient rt acfg st ctx (w\<lparr>apolloClient := h\<rparr>) =
         (Inl err, (w\<lparr>apolloClient := h\<rparr>)\<lparr>caches := s0\<rparr>)"
      by (simp_all add: initApolloClient_unresolved)
    then show ?thesis by (simp add: o)
  next
    case (Inr cfg)
    with Pair assms have "initApolloClient rt acfg st ctx w =
        createApolloClient rt cfg (default_param st (JObj Map.empty)) (w\<lparr>caches := s0\<rparr>)"
      "initApolloClient rt acfg st ctx (w\<lparr>apolloClient := h\<rparr>) =
        createApolloClient rt cfg (default_param st (JObj Map.empty))
          ((w\<lparr>apolloClient := h\<rparr>)\<lparr>caches := s0\<rparr>)"
      by (simp_all add: initApolloClient_server)
    then show ?thesis
      unfolding o by (simp add: createApolloClient_set_handle)
  qed
qed


lemma initApolloClient_handle_kept:
  assumes "apolloClient w = Some c"
  shows "apolloClient (snd (initApolloClient rt acfg st ctx w)) = Some c"
proof (cases "window_undefined rt")
  case True
  from initApolloClient_server_cases[OF True, of acfg st ctx w] assms show ?thesis by auto
next
  case False
  from initApolloClient_browser_set_cases[OF False assms, of acfg st ctx] assms show ?thesis
    by auto
qed

lemma initApolloClient_function:
  "initApolloClient rt (ConfigFunction f) st ctx w =
     (case f ctx (caches w) of
        (Inl err, s0) \<Rightarrow> (Inl err, w\<lparr>caches := s0\<rparr>)
      | (Inr cfg, s0) \<Rightarrow> initApolloClient rt (ConfigObject cfg) st ctx (w\<lparr>caches := s0\<rparr>))"
proof (cases "f ctx (caches w)")
  case (Pair r s0)
  show ?thesis
  proof (cases r)
    case (Inl err)
    with Pair show ?thesis
      by (simp add: initApolloClient_def resolve_config_def)
  next
    case (Inr cfg)
    have u: "(w\<lparr>caches := s0\<rparr>)\<lparr>caches := s0\<rparr> = w\<lparr>caches := s0\<rparr>"
      "apolloClient (w\<lparr>caches := s0\<rparr>) = apolloClient w"
      "caches (w\<lparr>caches := s0\<rparr>) = s0"
      by simp_all
    have l: "resolve_config (ConfigFunction f) ctx (caches w) = (Inr cfg, s0)"
      using Pair Inr by (simp add: resolve_config_def)
    have r: "resolve_config (ConfigObject cfg) ctx (caches (w\<lparr>caches := s0\<rparr>)) = (Inr cfg, s0)"
      by (simp add: resolve_config_def)
    have "initApolloClient rt (ConfigFunction f) st ctx w =
        initApolloClient rt (ConfigObject cfg) st ctx (w\<lparr>caches := s0\<rparr>)"
    proof (cases "window_undefined rt")
      case True
      show ?thesis
        unfolding initApolloClient_server[OF True l] initApolloClient_server[OF True r] u
        by (rule refl)
    next
      case False
      show ?thesis
      proof (cases "apolloClient w")
        case None
        then have n: "apolloClient (w\<lparr>caches := s0\<rparr>) = None" by simp
        show ?thesis
          unfolding initApolloClient_browser_first[OF False None l]
            initApolloClient_browser_first[OF False n r] u
          by (rule refl)
      next
        case (Some c)
        then have n: "apolloClient (w\<lparr>caches := s0\<rparr>) = Some c" by simp
        show ?thesis
          unfolding initApolloClient_browser_reuse[OF False Some]
            initApolloClient_browser_reuse[OF False n] l r
          by simp
      qed
    qed
    with Pair Inr show ?thesis by simp
  qed
qed

lemma initApolloClient_server_creates:
  assumes "window_undefined rt"
    and "resolve_config acfg ctx (caches w) = (Inr cfg, s0)"
    and "call_factory (cache_factory cfg) s0 = (Inr a, s1)"
    and "accepted (constructor_options rt cfg a)"
  shows "initApolloClient rt acfg st ctx w =
     (Inr (length (clients w)),
      w\<lparr>caches := snd (cache_restore (instance_props rt)
                        (or_else (default_param st (JObj Map.empty)) (JObj Map.empty)) a s1),
        clients := clients w @ [constructor_options rt cfg a]\<rparr>)"
proof -
  have d: "default_param (default_param st (JObj Map.empty)) (JObj Map.empty) =
      default_param st (JObj Map.empty)"
    by (simp add: default_param_def)
  from createApolloClient_creates[of cfg "w\<lparr>caches := s0\<rparr>" a s1 rt
      "default_param st (JObj Map.empty)"] assms(3,4)
  show ?thesis
    by (simp add: initApolloClient_server[OF assms(1,2)] d)
qed

lemma initApolloClient_browser_creates:
  assumes "\<not> window_undefined rt" and "apolloClient w = None"
    and "resolve_config acfg ctx (caches w) = (Inr cfg, s0)"
    and "call_factory (cache_factory cfg) s0 = (Inr a, s1)"
    and "accepted (constructor_options rt cfg a)"
  shows "initApolloClient rt acfg st ctx w =
     (Inr (length (clients w)),
      w\<lparr>caches := snd (cache_restore (instance_props rt)
                        (or_else (default_param st (JObj Map.empty)) (JObj Map.empty)) a s1),
        clients := clients w @ [constructor_options rt cfg a],
        apolloClient := Some (length (clients w))\<rparr>)"
proof -
  have d: "default_param (default_param st (JObj Map.empty)) (JObj Map.empty) =
      default_param st (JObj Map.empty)"
    by (simp add: default_param_def)
  from createApolloClient_creates[of cfg "w\<lparr>caches := s0\<rparr>" a s1 rt
      "default_param st (JObj Map.empty)"] assms(4,5)
  show ?thesis
    by (simp add: initApolloClient_browser_first[OF assms(1,2,3)] d)
qed

text \<open>Sequences of calls, on a server and in a browser.\<close>

lemma returned_clients_server:
  assumes "window_undefined rt"
  shows "distinct (returned_clients (fst (initApolloClient_calls rt calls w))) \<and>
         (\<forall>c \<in> set (returned_clients (fst (initApolloClient_calls rt calls w))).
            length (clients w) \<le> c) \<and>
         apolloClient (snd (initApolloClient_calls rt calls w)) = apolloClient w"
proof (induction calls arbitrary: w)
  case Nil
  then show ?case by simp
next
  case (Cons a calls)
  obtain acfg st ctx where a: "a = (acfg, st, ctx)" by (cases a) auto
  let ?i = "initApolloClient rt acfg st ctx w"
  let ?rest = "initApolloClient_calls rt calls (snd ?i)"
  have e: "initApolloClient_calls rt (a # calls) w = (fst ?i # fst ?rest, snd ?rest)"
    by (simp add: a split_beta)
  note ih = Cons.IH[of "snd ?i"]
  from initApolloClient_server_cases[OF assms, of acfg st ctx w]
  show ?case
  proof
    assume "\<exists>err s. ?i = (Inl err, w\<lparr>caches := s\<rparr>)"
    then obtain err s where i: "?i = (Inl err, w\<lparr>caches := s\<rparr>)" by blast
    with ih show ?thesis unfolding e by simp
  next
    assume "\<exists>s options. ?i = (Inr (length (clients w)),
        w\<lparr>caches := s, clients := clients w @ [options]\<rparr>) \<and> accepted options"
    then obtain s options where i: "?i = (Inr (length (clients w)),
        w\<lparr>caches := s, clients := clients w @ [options]\<rparr>)" by blast
    from ih i have "\<forall>c \<in> set (returned_clients (fst ?rest)). Suc (length (clients w)) \<le> c"
      by simp
    with ih i show ?thesis unfolding e by (auto simp add: i)
  qed
qed

lemma initApolloClient_calls_browser:
  assumes "\<not> window_undefined rt" and "apolloClient w = Some c"
  shows "set (returned_clients (fst (initApolloClient_calls rt calls w))) \<subseteq> {c} \<and>
         apolloClient (snd (initApolloClient_calls rt calls w)) = Some c \<and>
         clients (snd (initApolloClient_calls rt calls w)) = clients w"
  using assms(2)
proof (induction calls arbitrary: w)
  case Nil
  then show ?case by simp
next
  case (Cons a calls)
  obtain acfg st ctx where a: "a = (acfg, st, ctx)" by (cases a) auto
  let ?i = "initApolloClient rt acfg st ctx w"
  let ?rest = "initApolloClient_calls rt calls (snd ?i)"
  have e: "initApolloClient_calls rt (a # calls) w = (fst ?i # fst ?rest, snd ?rest)"
    by (simp add: a split_beta)
  from initApolloClient_browser_set_cases[OF assms(1) Cons.prems, of acfg st ctx]
  show ?case
  proof
    assume "\<exists>err s. ?i = (Inl err, w\<lparr>caches := s\<rparr>)"
    then obtain err s where i: "?i = (Inl err, w\<lparr>caches := s\<rparr>)" by blast
    with Cons.IH[of "snd ?i"] Cons.prems show ?thesis unfolding e by simp
  next
    assume "\<exists>s. ?i = (Inr c, w\<lparr>caches := s\<rparr>)"
    then obtain s where i: "?i = (Inr c, w\<lparr>caches := s\<rparr>)" by blast
    with Cons.IH[of "snd ?i"] Cons.prems show ?thesis unfolding e by simp
  qed
qed

section \<open>Facts about the concrete inputs\<close>

text \<open>The concrete configurations are ones the constructor accepts.\<close>

lemma plain_config_creates:
  "call_factory (cache_factory plain_config) s = (Inr (next_cache s), snd (new_InMemoryCache s))"
  "accepted (constructor_options rt plain_config a)"
  "get_opt (constructor_options rt plain_config a) ''cache'' = Cache a"
  by (simp_all add: module_defs example_defs Let_def)

lemma custom_config_creates:
  "call_factory (cache_factory custom_config) s = (Inr (next_cache s), snd (new_InMemoryCache s))"
  "accepted (constructor_options rt custom_config a)"
  "get_opt (constructor_options rt custom_config a) ''cache'' = Cache a"
  "get_opt (constructor_options rt custom_config a) ''ssrMode'' = Value (JBool False)"
  "constructor_options rt custom_config a ''createCache'' = None"
  by (simp_all add: module_defs example_defs Let_def)

lemma config_with_cache_creates:
  "call_factory (cache_factory config_with_cache) s = (Inr (next_cache s), snd (new_InMemoryCache s))"
  "accepted (constructor_options rt config_with_cache a)"
  "get_opt (constructor_options rt config_with_cache a) ''cache'' = Cache 0"
  by (simp_all add: module_defs example_defs Let_def)


text \<open>The first client of a process, with the plain configuration and with a supplied cache.\<close>

lemma plain_first_client:
  "initApolloClient rt (ConfigObject plain_config) JNull ctx initial_world =
     (Inr 0,
      \<lparr>apolloClient = (if window_undefined rt then None else Some 0),
       clients = [constructor_options rt plain_config 0],
       caches = \<lparr>cache_data = (\<lambda>_. Map.empty), next_cache = Suc 0\<rparr>,
       trace = []\<rparr>)"
proof -
  have rc: "resolve_config (ConfigObject plain_config) ctx (caches initial_world) =
      (Inr plain_config, caches initial_world)"
    by (simp add: resolve_config_def)
  have n: "apolloClient initial_world = None" by (simp add: initial_world_def)
  show ?thesis
  proof (cases "window_undefined rt")
    case True
    from initApolloClient_server_creates[OF True rc plain_config_creates(1,2), of JNull] True
    show ?thesis
      by (simp add: initial_world_def new_InMemoryCache_def cache_restore_def or_else_def
          default_param_def fun_upd_idem)
  next
    case False
    from initApolloClient_browser_creates[OF False n rc plain_config_creates(1,2), of JNull] False
    show ?thesis
      by (simp add: initial_world_def new_InMemoryCache_def cache_restore_def or_else_def
          default_param_def fun_upd_idem)
  qed
qed


lemma with_cache_first_client:
  assumes "window_undefined rt"
  shows "initApolloClient rt (ConfigObject config_with_cache) JNull ctx world_with_cache =
     (Inr 0,
      \<lparr>apolloClient = None, clients = [constructor_options rt config_with_cache 1],
       caches = \<lparr>cache_data = (\<lambda>_. Map.empty), next_cache = Suc (Suc 0)\<rparr>, trace = []\<rparr>)"
proof -
  have rc: "resolve_config (ConfigObject config_with_cache) ctx (caches world_with_cache) =
      (Inr config_with_cache, caches world_with_cache)"
    by (simp add: resolve_config_def)
  from initApolloClient_server_creates[OF assms rc config_with_cache_creates(1,2), of JNull]
  show ?thesis
    by (simp add: world_with_cache_def initial_world_def new_InMemoryCache_def cache_restore_def
        or_else_def default_param_def fun_upd_idem)
qed

lemma example_calls_results: "fst (initApolloClient_calls failing_runtime
                    [(ConfigObject plain_config, JNull, None),
                     (ConfigObject custom_config, JUndefined, None),
                     (ConfigFunction config_by_context, JNull, Some example_context)]
                    initial_world) = [Inr 0, Inr 1, Inr 2]"
  by (simp add: module_defs example_defs Let_def)

section \<open>Facts about the pre-render hook\<close>

lemma getDataFromTree_pass_eq:
  "getDataFromTree_pass rt appTree pageProps client w =
     w\<lparr>caches :=
         snd (getDataFromTree rt
                (Element appTree [''pageProps'' \<mapsto> JObj (pageProps(''apolloClient'' \<mapsto> JClient client))])
                (caches w)),
       trace :=
         trace w @
         GetDataFromTree
           (Element appTree [''pageProps'' \<mapsto> JObj (pageProps(''apolloClient'' \<mapsto> JClient client))]) #
         (case fst (getDataFromTree rt
                (Element appTree [''pageProps'' \<mapsto> JObj (pageProps(''apolloClient'' \<mapsto> JClient client))])
                (caches w)) of
            None \<Rightarrow> []
          | Some err \<Rightarrow> [ConsoleError ''Error while running `getDataFromTree`'' err]) @
         [HeadRewind]\<rparr>"
  by (simp add: getDataFromTree_pass_def Let_def split_beta split: option.split)

lemma client_cache_caches [simp]:
  "client_cache (w\<lparr>caches := s\<rparr>) client = client_cache w client"
  by (simp add: client_cache_def)

lemma client_cache_pass [simp]:
  "client_cache (getDataFromTree_pass rt appTree pageProps c w) client = client_cache w client"
  by (simp add: client_cache_def getDataFromTree_pass_eq)

lemma extract_and_return_Some:
  "client_cache w client = Some a \<Longrightarrow>
     extract_and_return pageProps client ctx w =
       (Inr (pageProps(''apolloState'' \<mapsto> JObj (cache_data (caches w) a))), ctx, w)"
  by (simp add: extract_and_return_def client_cache_extract_def cache_extract_def)

lemma extract_and_return_world:
  "snd (snd (extract_and_return pageProps client ctx w)) = w"
  "fst (snd (extract_and_return pageProps client ctx w)) = ctx"
  by (simp_all add: extract_and_return_def split: sum.split)

lemma hook_unresolved:
  "initApolloClient rt acfg JNull (Some ctx) w = (Inl err, w1) \<Longrightarrow>
     WithApollo_getServerSideProps rt acfg P ssr ctx w = (Inl err, ctx, w1)"
  by (simp add: WithApollo_getServerSideProps_def)

lemma hook_eq:
  assumes "initApolloClient rt acfg JNull (Some ctx) w = (Inr client, w1)"
    and "wrapped_getServerSideProps P (ctx\<lparr>ctx_apolloClient := Some client\<rparr>) (caches w1) = (r, ctx2, s2)"
  shows "WithApollo_getServerSideProps rt acfg P ssr ctx w =
     (case r of
        Inl err \<Rightarrow> (Inl err, ctx2, w1\<lparr>caches := s2\<rparr>)
      | Inr pageProps \<Rightarrow>
          if window_undefined rt then
            if res_finished ctx2 then (Inr pageProps, ctx2, w1\<lparr>caches := s2\<rparr>)
            else extract_and_return pageProps client ctx2
                   (if ssr then getDataFromTree_pass rt (AppTree ctx) pageProps client (w1\<lparr>caches := s2\<rparr>)
                    else w1\<lparr>caches := s2\<rparr>)
          else extract_and_return pageProps client ctx2 (w1\<lparr>caches := s2\<rparr>))"
  using assms by (simp add: WithApollo_getServerSideProps_def Let_def)

lemma hook_frame:
  "clients (snd (snd (WithApollo_getServerSideProps rt acfg P ssr ctx w))) =
     clients (snd (initApolloClient rt acfg JNull (Some ctx) w)) \<and>
   apolloClient (snd (snd (WithApollo_getServerSideProps rt acfg P ssr ctx w))) =
     apolloClient (snd (initApolloClient rt acfg JNull (Some ctx) w)) \<and>
   (\<not> (ssr \<and> window_undefined rt) \<longrightarrow>
      trace (snd (snd (WithApollo_getServerSideProps rt acfg P ssr ctx w))) = trace w)"
proof (cases "initApolloClient rt acfg JNull (Some ctx) w")
  case (Pair r0 w1)
  have t: "trace w1 = trace w"
    using initApolloClient_trace[of rt acfg JNull "Some ctx" w] Pair by simp
  show ?thesis
  proof (cases r0)
    case (Inl err)
    with Pair t show ?thesis
      by (simp add: hook_unresolved)
  next
    case (Inr client)
    obtain r ctx2 s2 where p: "wrapped_getServerSideProps P (ctx\<lparr>ctx_apolloClient := Some client\<rparr>)
        (caches w1) = (r, ctx2, s2)"
      by (metis prod_cases3)
    note h = hook_eq[OF Pair[unfolded Inr] p, of ssr]
    show ?thesis
      unfolding h Pair using t
      by (cases r) (auto simp add: extract_and_return_world getDataFromTree_pass_eq)
  qed
qed

lemma hook_handle:
  "apolloClient (snd (snd (WithApollo_getServerSideProps rt acfg P ssr ctx w))) =
     apolloClient (snd (initApolloClient rt acfg JNull (Some ctx) w))"
  using hook_frame[of rt acfg P ssr ctx w] by blast




lemma constructor_options_default_cache:
  "cfg ''cache'' = None \<Longrightarrow> get_opt (constructor_options rt cfg a) ''cache'' = Cache a"
  by (simp add: constructor_options_def get_opt_def map_add_def)

lemma hook_returned_snapshot:
  assumes "window_undefined rt"
    and "WithApollo_getServerSideProps rt acfg P ssr ctx w = (Inr props, ctx', w')"
    and "\<not> res_finished ctx'"
  shows "\<exists>client w1 m.
           initApolloClient rt acfg JNull (Some ctx) w = (Inr client, w1) \<and>
           client_cache_extract client w' = Inr (JObj m) \<and>
           props ''apolloState'' = Some (JObj m)"
proof (cases "initApolloClient rt acfg JNull (Some ctx) w")
  case (Pair r0 w1)
  show ?thesis
  proof (cases r0)
    case (Inl err)
    with Pair assms(2) show ?thesis by (simp add: hook_unresolved)
  next
    case (Inr client)
    obtain r ctx2 s2 where p: "wrapped_getServerSideProps P (ctx\<lparr>ctx_apolloClient := Some client\<rparr>)
        (caches w1) = (r, ctx2, s2)"
      by (metis prod_cases3)
    note h = hook_eq[OF Pair[unfolded Inr] p, of ssr]
    show ?thesis
    proof (cases r)
      case (Inl err)
      with h assms(2) show ?thesis by simp
    next
      case pp: (Inr pageProps)
      let ?w3 = "if ssr then getDataFromTree_pass rt (AppTree ctx) pageProps client (w1\<lparr>caches := s2\<rparr>)
                 else w1\<lparr>caches := s2\<rparr>"
      have c: "ctx2 = ctx'"
        using h assms(1,2) pp
        by (auto simp add: extract_and_return_def split: if_splits sum.splits)
      with assms(3) have nf: "\<not> res_finished ctx2" by simp
      from h assms(1,2) pp nf have e: "extract_and_return pageProps client ctx2 ?w3 = (Inr props, ctx', w')"
        by simp
      then obtain snap where s: "client_cache_extract client ?w3 = Inr snap"
        and pr: "props = pageProps(''apolloState'' \<mapsto> snap)" and w: "w' = ?w3"
        by (auto simp add: extract_and_return_def split: sum.splits)
      from s obtain m where m: "snap = JObj m"
        by (auto simp add: client_cache_extract_def cache_extract_def split: option.splits)
      from s pr w m Pair Inr show ?thesis by simp
    qed
  qed
qed

lemma fetched_snapshot:
  "WithApollo_getServerSideProps fetching_runtime (ConfigObject plain_config) plain_page True
     example_context initial_world =
     (Inr [''apolloState'' \<mapsto> JObj [''ROOT_QUERY'' \<mapsto> JNum 1]],
      example_context\<lparr>ctx_apolloClient := Some 0\<rparr>,
      \<lparr>apolloClient = None, clients = [constructor_options fetching_runtime plain_config 0],
       caches = \<lparr>cache_data = (\<lambda>_. Map.empty)(0 := [''ROOT_QUERY'' \<mapsto> JNum 1]),
                 next_cache = Suc 0\<rparr>,
       trace =
         [GetDataFromTree
            (Element ''App'' [''pageProps'' \<mapsto> JObj [''apolloClient'' \<mapsto> JClient 0]]),
          HeadRewind]\<rparr>)"
proof -
  let ?w1 = "\<lparr>apolloClient = None, clients = [constructor_options fetching_runtime plain_config 0],
       caches = \<lparr>cache_data = (\<lambda>_. Map.empty), next_cache = Suc 0\<rparr>, trace = []\<rparr>"
  have s: "window_undefined fetching_runtime" by (simp add: fetching_runtime_def)
  have i: "initApolloClient fetching_runtime (ConfigObject plain_config) JNull (Some example_context)
     initial_world = (Inr 0, ?w1)"
    using plain_first_client[of fetching_runtime "Some example_context"] s by simp
  have p: "wrapped_getServerSideProps plain_page
              (example_context\<lparr>ctx_apolloClient := Some 0\<rparr>) (caches ?w1) =
            (Inr Map.empty, example_context\<lparr>ctx_apolloClient := Some 0\<rparr>, caches ?w1)"
    by (simp add: wrapped_getServerSideProps_def plain_page_def)
  have nf: "\<not> res_finished (example_context\<lparr>ctx_apolloClient := Some 0\<rparr>)"
    by (simp add: res_finished_def example_context_def)
  let ?w3 = "getDataFromTree_pass fetching_runtime (AppTree example_context) Map.empty 0
         (?w1\<lparr>caches := caches ?w1\<rparr>)"
  have c0: "client_cache ?w1 0 = Some 0"
    by (simp add: client_cache_def plain_config_creates(3))
  have c: "client_cache ?w3 0 = Some 0"
    using c0 by simp
  have he: "WithApollo_getServerSideProps fetching_runtime (ConfigObject plain_config) plain_page True
     example_context initial_world =
     extract_and_return Map.empty 0 (example_context\<lparr>ctx_apolloClient := Some 0\<rparr>) ?w3"
    using s nf by (simp add: hook_eq[OF i p])
  show ?thesis
    unfolding he extract_and_return_Some[OF c]
    by (simp add: getDataFromTree_pass_eq fetching_runtime_def example_context_def)
qed

section \<open>Facts about the component\<close>

lemma WithApollo_memoized:
  "WithApollo rt acfg P props (Some client) w =
     (Inr (ApolloProvider client P (rest_without props {''apolloClient'', ''apolloState''})),
      Some client, w)"
  by (simp add: WithApollo_def useMemo_def Let_def)

lemma WithApollo_supplied:
  "truthy (get_prop props ''apolloClient'') \<Longrightarrow>
     WithApollo rt acfg P props None w =
       (Inr (ApolloProvider (get_prop props ''apolloClient'') P
               (rest_without props {''apolloClient'', ''apolloState''})),
        Some (get_prop props ''apolloClient''), w)"
  by (simp add: WithApollo_def useMemo_def Let_def)

lemma WithApollo_absent:
  "\<not> truthy (get_prop props ''apolloClient'') \<Longrightarrow>
     WithApollo rt acfg P props None w =
       (case initApolloClient rt acfg (get_prop props ''apolloState'') None w of
          (Inl err, w') \<Rightarrow> (Inl err, None, w')
        | (Inr c, w') \<Rightarrow>
            (Inr (ApolloProvider (JClient c) P
                    (rest_without props {''apolloClient'', ''apolloState''})),
             Some (JClient c), w'))"
  by (simp add: WithApollo_def useMemo_def Let_def split: prod.split sum.split)

lemma WithApollo_handle_kept:
  assumes "apolloClient w = Some c"
  shows "apolloClient (snd (snd (WithApollo rt acfg P props memo w))) = Some c"
proof (cases memo)
  case (Some client)
  with assms show ?thesis by (simp add: WithApollo_memoized)
next
  case None
  show ?thesis
  proof (cases "truthy (get_prop props ''apolloClient'')")
    case True
    with None assms show ?thesis by (simp add: WithApollo_supplied)
  next
    case False
    from initApolloClient_handle_kept[OF assms, of rt acfg "get_prop props ''apolloState''" None]
    show ?thesis
      unfolding None WithApollo_absent[OF False]
      by (auto split: prod.split sum.split)
  qed
qed

lemma WithApollo_initializes:
  assumes "\<not> window_undefined rt" and "apolloClient w = None"
    and "\<not> truthy (get_prop props ''apolloClient'')"
    and "resolve_config acfg None (caches w) = (Inr cfg, s0)"
    and "call_factory (cache_factory cfg) s0 = (Inr a, s1)"
    and "accepted (constructor_options rt cfg a)"
  shows "WithApollo rt acfg P props None w =
           (Inr (ApolloProvider (JClient (length (clients w))) P
                   (rest_without props {''apolloClient'', ''apolloState''})),
            Some (JClient (length (clients w))),
            w\<lparr>caches := snd (cache_restore (instance_props rt)
                              (or_else (default_param (get_prop props ''apolloState'') (JObj Map.empty))
                                 (JObj Map.empty)) a s1),
              clients := clients w @ [constructor_options rt cfg a],
              apolloClient := Some (length (clients w))\<rparr>)"
  by (simp add: WithApollo_absent[OF assms(3)]
      initApolloClient_browser_creates[OF assms(1,2,4,5,6)])





section \<open>The claims\<close>

text \<open>
  C1. On a server (\<^verbatim>\<open>window\<close> is undefined) a call to \<^verbatim>\<open>initApolloClient\<close> leaves the
  module variable as it is and gives the same result whatever the module variable holds.
  When the configuration resolves, the call is \<^verbatim>\<open>createApolloClient\<close> on it; when moreover
  the cache factory returns and the constructor accepts the options, the call returns a
  new client, constructed from these options. A client returned is a new instance, it
  is never returned again by a later call, and the clients returned by any sequence of
  calls are pairwise distinct.
\<close>

theorem server_client_always_new:
  assumes "window_undefined rt"
  shows
    "(let r = initApolloClient rt apolloConfig initialState ctx w
      in apolloClient (snd r) = apolloClient w \<and>
         (\<forall>cfg s0. resolve_config apolloConfig ctx (caches w) = (Inr cfg, s0) \<longrightarrow>
            r = createApolloClient rt cfg (default_param initialState (JObj Map.empty))
                  (w\<lparr>caches := s0\<rparr>)) \<and>
         (\<forall>cfg s0 a s1.
            resolve_config apolloConfig ctx (caches w) = (Inr cfg, s0) \<and>
            call_factory (cache_factory cfg) s0 = (Inr a, s1) \<and>
            accepted (constructor_options rt cfg a) \<longrightarrow>
            fst r = Inr (length (clients w)) \<and>
            clients (snd r) = clients w @ [constructor_options rt cfg a]) \<and>
         (\<forall>c. fst r = Inr c \<longrightarrow>
            c = length (clients w) \<and>
            length (clients (snd r)) = Suc (length (clients w)) \<and>
            take (length (clients w)) (clients (snd r)) = clients w) \<and>
         (\<forall>h. initApolloClient rt apolloConfig initialState ctx (w\<lparr>apolloClient := h\<rparr>) =
                (fst r, (snd r)\<lparr>apolloClient := h\<rparr>)) \<and>
         (\<forall>c apolloConfig' initialState' ctx' w'.
            fst r = Inr c \<and> length (clients (snd r)) \<le> length (clients w') \<longrightarrow>
            fst (initApolloClient rt apolloConfig' initialState' ctx' w') \<noteq> Inr c)) \<and>
     distinct (returned_clients (fst (initApolloClient_calls rt calls w))) \<and>
     apolloClient (snd (initApolloClient_calls rt calls w)) = apolloClient w"
proof -
  let ?r = "initApolloClient rt apolloConfig initialState ctx w"
  note cases = initApolloClient_server_cases[OF assms]
  have handle: "apolloClient (snd ?r) = apolloClient w"
    using cases[of apolloConfig initialState ctx w] by auto
  have by_create: "resolve_config apolloConfig ctx (caches w) = (Inr cfg, s0) \<Longrightarrow>
      ?r = createApolloClient rt cfg (default_param initialState (JObj Map.empty)) (w\<lparr>caches := s0\<rparr>)"
    for cfg s0
    using assms by (simp add: initApolloClient_server)
  have creates: "resolve_config apolloConfig ctx (caches w) = (Inr cfg, s0) \<Longrightarrow>
      call_factory (cache_factory cfg) s0 = (Inr a, s1) \<Longrightarrow>
      accepted (constructor_options rt cfg a) \<Longrightarrow>
      fst ?r = Inr (length (clients w)) \<and> clients (snd ?r) = clients w @ [constructor_options rt cfg a]"
    for cfg s0 a s1
    using createApolloClient_creates[of cfg "w\<lparr>caches := s0\<rparr>" a s1 rt
        "default_param initialState (JObj Map.empty)"]
    by (simp add: by_create)
  have new: "fst ?r = Inr c \<Longrightarrow>
      c = length (clients w) \<and> length (clients (snd ?r)) = Suc (length (clients w)) \<and>
      take (length (clients w)) (clients (snd ?r)) = clients w" for c
    using cases[of apolloConfig initialState ctx w] by auto
  have later: "fst ?r = Inr c \<Longrightarrow> length (clients (snd ?r)) \<le> length (clients w') \<Longrightarrow>
      fst (initApolloClient rt apolloConfig' initialState' ctx' w') \<noteq> Inr c"
    for c apolloConfig' initialState' ctx' w'
    using new[of c] cases[of apolloConfig' initialState' ctx' w'] by auto
  have calls: "distinct (returned_clients (fst (initApolloClient_calls rt calls w)))"
    "apolloClient (snd (initApolloClient_calls rt calls w)) = apolloClient w"
    using returned_clients_server[OF assms, of calls w] by simp_all
  show ?thesis
    unfolding Let_def
    using handle by_create creates new later calls initApolloClient_set_handle[OF assms]
    by blast
qed

text \<open>
  C1 on a server with the plain configuration: the call returns the new client 0,
  also when the module variable holds a client; three calls one after another return
  the clients 0, 1 and 2.
\<close>

theorem server_client_always_new_witness:
  "window_undefined failing_runtime \<and>
   fst (initApolloClient failing_runtime (ConfigObject plain_config) JNull None initial_world) =
     Inr 0 \<and>
   fst (initApolloClient failing_runtime (ConfigObject plain_config) JNull None
          (initial_world\<lparr>apolloClient := Some 0\<rparr>)) = Inr 0 \<and>
   apolloClient (snd (initApolloClient failing_runtime (ConfigObject plain_config) JNull None
                        initial_world)) = None \<and>
   clients (snd (initApolloClient failing_runtime (ConfigObject plain_config) JNull None
                   initial_world)) = [constructor_options failing_runtime plain_config 0] \<and>
   fst (initApolloClient failing_runtime (ConfigObject plain_config) JNull None
          (snd (initApolloClient failing_runtime (ConfigObject plain_config) JNull None
                  initial_world))) \<noteq> Inr 0 \<and>
   distinct (returned_clients (fst (initApolloClient_calls failing_runtime
                    [(ConfigObject plain_config, JNull, None),
                     (ConfigObject custom_config, JUndefined, None),
                     (ConfigFunction config_by_context, JNull, Some example_context)]
                    initial_world))) \<and>
   fst (initApolloClient_calls failing_runtime
          [(ConfigObject plain_config, JNull, None),
           (ConfigObject custom_config, JUndefined, None),
           (ConfigFunction config_by_context, JNull, Some example_context)]
          initial_world) = [Inr 0, Inr 1, Inr 2]"
proof -
  have s: "window_undefined failing_runtime" by (simp add: failing_runtime_def)
  let ?r = "initApolloClient failing_runtime (ConfigObject plain_config) JNull None initial_world"
  note t = server_client_always_new[OF s, of "ConfigObject plain_config" JNull None initial_world
      "[(ConfigObject plain_config, JNull, None),
        (ConfigObject custom_config, JUndefined, None),
        (ConfigFunction config_by_context, JNull, Some example_context)]", unfolded Let_def]
  have l: "clients initial_world = []" "apolloClient initial_world = None"
    by (simp_all add: initial_world_def)
  have rc: "resolve_config (ConfigObject plain_config) None (caches initial_world) =
      (Inr plain_config, caches initial_world)"
    by (simp add: resolve_config_def)
  from t rc plain_config_creates(1)[of "caches initial_world"]
    plain_config_creates(2)[of failing_runtime "next_cache (caches initial_world)"]
  have c: "fst ?r = Inr (length (clients initial_world))"
    "clients (snd ?r) =
       clients initial_world @
       [constructor_options failing_runtime plain_config (next_cache (caches initial_world))]"
    by blast+
  from t have h: "initApolloClient failing_runtime (ConfigObject plain_config) JNull None
          (initial_world\<lparr>apolloClient := Some 0\<rparr>) = (fst ?r, (snd ?r)\<lparr>apolloClient := Some 0\<rparr>)"
    and hd: "apolloClient (snd ?r) = apolloClient initial_world"
    by blast+
  from t c(1) have "length (clients (snd ?r)) \<le> length (clients (snd ?r)) \<longrightarrow>
      fst (initApolloClient failing_runtime (ConfigObject plain_config) JNull None (snd ?r)) \<noteq>
        Inr (length (clients initial_world))"
    by blast
  then have b: "fst (initApolloClient failing_runtime (ConfigObject plain_config) JNull None
          (snd ?r)) \<noteq> Inr 0"
    using l by simp
  have n: "next_cache (caches initial_world) = 0" by (simp add: initial_world_def)
  from t have d: "distinct (returned_clients (fst (initApolloClient_calls failing_runtime
                    [(ConfigObject plain_config, JNull, None),
                     (ConfigObject custom_config, JUndefined, None),
                     (ConfigFunction config_by_context, JNull, Some example_context)]
                    initial_world)))"
    by blast
  show ?thesis
    using s c l b d hd n example_calls_results by (simp add: h)
qed

text \<open>
  C2. In a browser, the call to \<^verbatim>\<open>initApolloClient\<close> that finds the module variable
  \<^verbatim>\<open>null\<close>, with a configuration that resolves, a cache factory that returns and options
  that the constructor accepts, constructs one client from these options, stores it in
  the module variable and returns it; every later call returns this client and
  constructs nothing. A call that fails leaves the module variable \<^verbatim>\<open>null\<close>. Once the
  module variable holds a client, every call returns it (when the configuration function,
  if any, returns), and neither \<^verbatim>\<open>initApolloClient\<close>, the hook nor the component reassigns
  it.
\<close>

theorem browser_client_created_once:
  assumes "\<not> window_undefined rt"
  shows
    "(\<forall>cfg s0 a s1.
        apolloClient w = None \<and>
        resolve_config apolloConfig ctx (caches w) = (Inr cfg, s0) \<and>
        call_factory (cache_factory cfg) s0 = (Inr a, s1) \<and>
        accepted (constructor_options rt cfg a) \<longrightarrow>
        (let r = initApolloClient rt apolloConfig initialState ctx w
         in fst r = Inr (length (clients w)) \<and>
            clients (snd r) = clients w @ [constructor_options rt cfg a] \<and>
            apolloClient (snd r) = Some (length (clients w)) \<and>
            r = (case createApolloClient rt cfg (default_param initialState (JObj Map.empty))
                         (w\<lparr>caches := s0\<rparr>) of
                   (Inl err, w') \<Rightarrow> (Inl err, w')
                 | (Inr c, w') \<Rightarrow> (Inr c, w'\<lparr>apolloClient := Some c\<rparr>)) \<and>
            set (returned_clients (fst (initApolloClient_calls rt calls (snd r)))) \<subseteq>
              {length (clients w)} \<and>
            apolloClient (snd (initApolloClient_calls rt calls (snd r))) =
              Some (length (clients w)) \<and>
            clients (snd (initApolloClient_calls rt calls (snd r))) = clients (snd r))) \<and>
     (apolloClient w = None \<longrightarrow>
        (\<forall>err. fst (initApolloClient rt apolloConfig initialState ctx w) = Inl err \<longrightarrow>
           apolloClient (snd (initApolloClient rt apolloConfig initialState ctx w)) = None \<and>
           clients (snd (initApolloClient rt apolloConfig initialState ctx w)) = clients w)) \<and>
     (\<forall>c. apolloClient w = Some c \<longrightarrow>
        initApolloClient rt apolloConfig initialState ctx w =
          (case resolve_config apolloConfig ctx (caches w) of
             (Inl err, s0) \<Rightarrow> (Inl err, w\<lparr>caches := s0\<rparr>)
           | (Inr cfg, s0) \<Rightarrow> (Inr c, w\<lparr>caches := s0\<rparr>)) \<and>
        (\<forall>cfg. initApolloClient rt (ConfigObject cfg) initialState ctx w = (Inr c, w)) \<and>
        apolloClient (snd (initApolloClient rt apolloConfig initialState ctx w)) = Some c \<and>
        clients (snd (initApolloClient rt apolloConfig initialState ctx w)) = clients w \<and>
        set (returned_clients (fst (initApolloClient_calls rt calls w))) \<subseteq> {c} \<and>
        apolloClient (snd (initApolloClient_calls rt calls w)) = Some c \<and>
        clients (snd (initApolloClient_calls rt calls w)) = clients w \<and>
        apolloClient (snd (snd (WithApollo_getServerSideProps rt apolloConfig PageComponent ssr
                                  rctx w))) = Some c \<and>
        apolloClient (snd (snd (WithApollo rt apolloConfig PageComponent props memo w))) = Some c)"
proof -
  let ?r = "initApolloClient rt apolloConfig initialState ctx w"
  have first: "(let r = ?r
         in fst r = Inr (length (clients w)) \<and>
            clients (snd r) = clients w @ [constructor_options rt cfg a] \<and>
            apolloClient (snd r) = Some (length (clients w)) \<and>
            r = (case createApolloClient rt cfg (default_param initialState (JObj Map.empty))
                         (w\<lparr>caches := s0\<rparr>) of
                   (Inl err, w') \<Rightarrow> (Inl err, w')
                 | (Inr c, w') \<Rightarrow> (Inr c, w'\<lparr>apolloClient := Some c\<rparr>)) \<and>
            set (returned_clients (fst (initApolloClient_calls rt calls (snd r)))) \<subseteq>
              {length (clients w)} \<and>
            apolloClient (snd (initApolloClient_calls rt calls (snd r))) =
              Some (length (clients w)) \<and>
            clients (snd (initApolloClient_calls rt calls (snd r))) = clients (snd r))"
    if n: "apolloClient w = None"
      and rc: "resolve_config apolloConfig ctx (caches w) = (Inr cfg, s0)"
      and cf: "call_factory (cache_factory cfg) s0 = (Inr a, s1)"
      and ac: "accepted (constructor_options rt cfg a)"
    for cfg s0 a s1
  proof -
    note e = initApolloClient_browser_first[OF assms n rc, of initialState]
    have c: "createApolloClient rt cfg (default_param initialState (JObj Map.empty)) (w\<lparr>caches := s0\<rparr>) =
      (Inr (length (clients w)),
       w\<lparr>caches := snd (cache_restore (instance_props rt)
            (or_else (default_param (default_param initialState (JObj Map.empty)) (JObj Map.empty))
               (JObj Map.empty)) a s1),
         clients := clients w @ [constructor_options rt cfg a]\<rparr>)"
      using createApolloClient_creates[of cfg "w\<lparr>caches := s0\<rparr>" a s1 rt] cf ac by simp
    have h: "apolloClient (snd ?r) = Some (length (clients w))"
      by (simp add: e c)
    from initApolloClient_calls_browser[OF assms h, of calls] e c
    show ?thesis
      by (simp add: Let_def)
  qed
  have failed: "apolloClient (snd ?r) = None \<and> clients (snd ?r) = clients w"
    if n: "apolloClient w = None" and f: "fst ?r = Inl err" for err
    using initApolloClient_browser_null_cases[OF assms n, of apolloConfig initialState ctx] n f
    by auto
  have again: "?r = (case resolve_config apolloConfig ctx (caches w) of
             (Inl err, s0) \<Rightarrow> (Inl err, w\<lparr>caches := s0\<rparr>)
           | (Inr cfg, s0) \<Rightarrow> (Inr c, w\<lparr>caches := s0\<rparr>))"
      "initApolloClient rt (ConfigObject cfg) initialState ctx w = (Inr c, w)"
      "apolloClient (snd ?r) = Some c" "clients (snd ?r) = clients w"
    if s: "apolloClient w = Some c" for c cfg
  proof -
    show "?r = (case resolve_config apolloConfig ctx (caches w) of
             (Inl err, s0) \<Rightarrow> (Inl err, w\<lparr>caches := s0\<rparr>)
           | (Inr cfg, s0) \<Rightarrow> (Inr c, w\<lparr>caches := s0\<rparr>))"
      by (rule initApolloClient_browser_reuse[OF assms s])
    show "initApolloClient rt (ConfigObject cfg) initialState ctx w = (Inr c, w)"
      by (simp add: initApolloClient_browser_reuse[OF assms s] resolve_config_def)
    from initApolloClient_browser_set_cases[OF assms s, of apolloConfig initialState ctx] s
    show "apolloClient (snd ?r) = Some c" "clients (snd ?r) = clients w"
      by auto
  qed
  have others: "apolloClient (snd (snd (WithApollo_getServerSideProps rt apolloConfig PageComponent ssr
                                  rctx w))) = Some c"
    "apolloClient (snd (snd (WithApollo rt apolloConfig PageComponent props memo w))) = Some c"
    if s: "apolloClient w = Some c" for c
    using initApolloClient_handle_kept[OF s, of rt apolloConfig JNull "Some rctx"]
      WithApollo_handle_kept[OF s]
    by (simp_all add: hook_handle)
  show ?thesis
    using first failed again others initApolloClient_calls_browser[OF assms, of w _ calls]
    by blast
qed

text \<open>
  C2 in a browser with the plain configuration: the first call constructs the client 0;
  later calls, with other configurations and snapshots, return it and change nothing.
\<close>

theorem browser_client_created_once_witness:
  "\<not> window_undefined browser_runtime \<and> apolloClient initial_world = None \<and>
   (let r = initApolloClient browser_runtime (ConfigObject plain_config) JNull None initial_world
    in fst r = Inr 0 \<and>
       clients (snd r) = [constructor_options browser_runtime plain_config 0] \<and>
       apolloClient (snd r) = Some 0 \<and>
       initApolloClient browser_runtime (ConfigObject custom_config)
         (JObj [''ROOT_QUERY'' \<mapsto> JNum 1]) None (snd r) = (Inr 0, snd r) \<and>
       initApolloClient_calls browser_runtime
         [(ConfigObject custom_config, JUndefined, None),
          (ConfigObject plain_config, JNull, None)] (snd r) = ([Inr 0, Inr 0], snd r))"
proof -
  have b: "\<not> window_undefined browser_runtime" by (simp add: browser_runtime_def)
  have n: "apolloClient initial_world = None" "clients initial_world = []"
    "next_cache (caches initial_world) = 0"
    by (simp_all add: initial_world_def)
  let ?r = "initApolloClient browser_runtime (ConfigObject plain_config) JNull None initial_world"
  have rc: "resolve_config (ConfigObject plain_config) None (caches initial_world) =
      (Inr plain_config, caches initial_world)"
    by (simp add: resolve_config_def)
  note t1 = browser_client_created_once[OF b, of initial_world "ConfigObject plain_config" None
      JNull "[]", unfolded Let_def]
  from t1 n(1) rc plain_config_creates(1)[of "caches initial_world"]
    plain_config_creates(2)[of browser_runtime "next_cache (caches initial_world)"]
  have c: "fst ?r = Inr (length (clients initial_world))"
    "clients (snd ?r) = clients initial_world @
       [constructor_options browser_runtime plain_config (next_cache (caches initial_world))]"
    "apolloClient (snd ?r) = Some (length (clients initial_world))"
    by blast+
  then have h: "apolloClient (snd ?r) = Some 0" using n by simp
  note t2 = browser_client_created_once[OF b, of "snd ?r" "ConfigObject custom_config" None
      "JObj [''ROOT_QUERY'' \<mapsto> JNum 1]" "[]"]
  from t2 h have again: "\<And>cfg st. initApolloClient browser_runtime (ConfigObject cfg)
         (JObj [''ROOT_QUERY'' \<mapsto> JNum 1]) None (snd ?r) = (Inr 0, snd ?r)"
    by blast
  note t3 = browser_client_created_once[OF b, of "snd ?r" "ConfigObject custom_config" None
      JUndefined "[]"]
  note t4 = browser_client_created_once[OF b, of "snd ?r" "ConfigObject custom_config" None
      JNull "[]"]
  from t3 h have a3: "\<And>cfg. initApolloClient browser_runtime (ConfigObject cfg)
         JUndefined None (snd ?r) = (Inr 0, snd ?r)"
    by blast
  from t4 h have a4: "\<And>cfg. initApolloClient browser_runtime (ConfigObject cfg)
         JNull None (snd ?r) = (Inr 0, snd ?r)"
    by blast
  show ?thesis
    unfolding Let_def using b n c again by (simp add: a3 a4)
qed








text \<open>
  C6 as stated fails: when the configuration supplies its own \<^verbatim>\<open>cache\<close>, that cache is the
  client's cache, and the snapshot is restored into another cache, the one \<^verbatim>\<open>createCache()\<close>
  made, which the client does not use.
\<close>

theorem snapshot_not_restored_into_supplied_cache:
  "fst (WithApollo_getServerSideProps fetching_runtime (ConfigObject config_with_cache) plain_page
          True example_context world_with_cache) =
     Inr [''apolloState'' \<mapsto> JObj [''ROOT_QUERY'' \<mapsto> JNum 1]] \<and>
   WithApollo browser_runtime (ConfigObject config_with_cache) plain_page
     [''apolloState'' \<mapsto> JObj [''ROOT_QUERY'' \<mapsto> JNum 1]] None world_with_cache =
     (Inr (ApolloProvider (JClient 0) plain_page
             (rest_without [''apolloState'' \<mapsto> JObj [''ROOT_QUERY'' \<mapsto> JNum 1]]
                {''apolloClient'', ''apolloState''})),
      Some (JClient 0),
      \<lparr>apolloClient = Some 0,
       clients = [constructor_options browser_runtime config_with_cache 1],
       caches = \<lparr>cache_data = (\<lambda>_. Map.empty)(1 := [''ROOT_QUERY'' \<mapsto> JNum 1]),
                 next_cache = Suc (Suc 0)\<rparr>,
       trace = []\<rparr>) \<and>
   (let wB = snd (snd (WithApollo browser_runtime (ConfigObject config_with_cache) plain_page
                    [''apolloState'' \<mapsto> JObj [''ROOT_QUERY'' \<mapsto> JNum 1]] None
                    world_with_cache))
    in client_cache wB 0 = Some 0 \<and>
       cache_extract 1 (caches wB) = JObj [''ROOT_QUERY'' \<mapsto> JNum 1] \<and>
       client_cache_extract 0 wB = Inr (JObj Map.empty) \<and>
       client_cache_extract 0 wB \<noteq> Inr (JObj [''ROOT_QUERY'' \<mapsto> JNum 1]))"
proof -
  let ?props = "[''apolloState'' \<mapsto> JObj [''ROOT_QUERY'' \<mapsto> JNum 1]]"
  let ?w1 = "\<lparr>apolloClient = None, clients = [constructor_options fetching_runtime config_with_cache 1],
       caches = \<lparr>cache_data = (\<lambda>_. Map.empty), next_cache = Suc (Suc 0)\<rparr>, trace = []\<rparr>"
  have sv: "window_undefined fetching_runtime" by (simp add: fetching_runtime_def)
  have i: "initApolloClient fetching_runtime (ConfigObject config_with_cache) JNull
      (Some example_context) world_with_cache = (Inr 0, ?w1)"
    by (rule with_cache_first_client[OF sv])
  have p: "wrapped_getServerSideProps plain_page
              (example_context\<lparr>ctx_apolloClient := Some 0\<rparr>) (caches ?w1) =
            (Inr Map.empty, example_context\<lparr>ctx_apolloClient := Some 0\<rparr>, caches ?w1)"
    by (simp add: wrapped_getServerSideProps_def plain_page_def)
  have nf: "\<not> res_finished (example_context\<lparr>ctx_apolloClient := Some 0\<rparr>)"
    by (simp add: res_finished_def example_context_def)
  let ?w3 = "getDataFromTree_pass fetching_runtime (AppTree example_context) Map.empty 0
         (?w1\<lparr>caches := caches ?w1\<rparr>)"
  have c0: "client_cache ?w1 0 = Some 0"
    by (simp add: client_cache_def config_with_cache_creates(3))
  have c: "client_cache ?w3 0 = Some 0"
    using c0 by simp
  have he: "WithApollo_getServerSideProps fetching_runtime (ConfigObject config_with_cache)
      plain_page True example_context world_with_cache =
     extract_and_return Map.empty 0 (example_context\<lparr>ctx_apolloClient := Some 0\<rparr>) ?w3"
    using sv nf by (simp add: hook_eq[OF i p])
  have s: "fst (WithApollo_getServerSideProps fetching_runtime (ConfigObject config_with_cache)
                 plain_page True example_context world_with_cache) = Inr ?props"
    unfolding he extract_and_return_Some[OF c]
    by (simp add: getDataFromTree_pass_eq fetching_runtime_def)
  have b1: "\<not> window_undefined browser_runtime" by (simp add: browser_runtime_def)
  have b2: "apolloClient world_with_cache = None"
    by (simp add: world_with_cache_def initial_world_def)
  have b3: "\<not> truthy (get_prop ?props ''apolloClient'')" by (simp add: get_prop_def)
  have b4: "resolve_config (ConfigObject config_with_cache) None (caches world_with_cache) =
      (Inr config_with_cache, caches world_with_cache)"
    by (simp add: resolve_config_def)
  have b: "WithApollo browser_runtime (ConfigObject config_with_cache) plain_page ?props None
      world_with_cache =
     (Inr (ApolloProvider (JClient 0) plain_page
             (rest_without ?props {''apolloClient'', ''apolloState''})),
      Some (JClient 0),
      \<lparr>apolloClient = Some 0,
       clients = [constructor_options browser_runtime config_with_cache 1],
       caches = \<lparr>cache_data = (\<lambda>_. Map.empty)(1 := [''ROOT_QUERY'' \<mapsto> JNum 1]),
                 next_cache = Suc (Suc 0)\<rparr>,
       trace = []\<rparr>)"
    using WithApollo_initializes[OF b1 b2 b3 b4 config_with_cache_creates(1,2), of plain_page]
    by (simp add: world_with_cache_def initial_world_def new_InMemoryCache_def cache_restore_def
        or_else_def default_param_def get_prop_def browser_runtime_def fun_upd_idem)
  have ne: "Map.empty \<noteq> [''ROOT_QUERY'' \<mapsto> JNum 1]"
    by (metis map_upd_nonempty)
  show ?thesis
    unfolding s b Let_def using ne
    by (simp add: client_cache_extract_def client_cache_def config_with_cache_creates(3)
        cache_extract_def)
qed

text \<open>
  C6, as amended. The snapshot the hook returns on a server (response not finished) is
  the extraction of the server client's cache. When the component, given these
  properties, initializes the first client of a browser from a configuration without a
  \<^verbatim>\<open>cache\<close> key, which the constructor accepts, the cache of the new client is the cache
  made by \<^verbatim>\<open>createCache()\<close> and restored from exactly that snapshot, and its extraction is
  the snapshot.
\<close>

theorem snapshot_round_trip:
  assumes "window_undefined rtS"
    and "WithApollo_getServerSideProps rtS apolloConfig PageComponent ssr ctx wS =
           (Inr props, ctx', wS')"
    and "\<not> res_finished ctx'"
    and "\<not> window_undefined rtB" and "apolloClient wB = None"
    and "\<not> truthy (get_prop props ''apolloClient'')"
    and "resolve_config apolloConfig None (caches wB) = (Inr cfg, s0)"
    and "cfg ''cache'' = None"
    and "call_factory (cache_factory cfg) s0 = (Inr a, s1)"
    and "accepted (constructor_options rtB cfg a)"
  shows "\<exists>clientS w1 snap wB'.
           initApolloClient rtS apolloConfig JNull (Some ctx) wS = (Inr clientS, w1) \<and>
           client_cache_extract clientS wS' = Inr snap \<and>
           props ''apolloState'' = Some snap \<and>
           WithApollo rtB apolloConfig PageComponent props None wB =
             (Inr (ApolloProvider (JClient (length (clients wB))) PageComponent
                     (rest_without props {''apolloClient'', ''apolloState''})),
              Some (JClient (length (clients wB))), wB') \<and>
           apolloClient wB' = Some (length (clients wB)) \<and>
           clients wB' = clients wB @ [constructor_options rtB cfg a] \<and>
           client_cache wB' (length (clients wB)) = Some a \<and>
           (a, caches wB') = cache_restore (instance_props rtB) snap a s1 \<and>
           client_cache_extract (length (clients wB)) wB' = Inr snap"
proof -
  from hook_returned_snapshot[OF assms(1,2,3)]
  obtain clientS w1 m where i: "initApolloClient rtS apolloConfig JNull (Some ctx) wS = (Inr clientS, w1)"
    and e: "client_cache_extract clientS wS' = Inr (JObj m)"
    and p: "props ''apolloState'' = Some (JObj m)"
    by blast
  have st: "or_else (default_param (get_prop props ''apolloState'') (JObj Map.empty)) (JObj Map.empty) =
      JObj m"
    using p by (simp add: get_prop_def default_param_def or_else_def)
  let ?wB' = "wB\<lparr>caches := snd (cache_restore (instance_props rtB) (JObj m) a s1),
              clients := clients wB @ [constructor_options rtB cfg a],
              apolloClient := Some (length (clients wB))\<rparr>"
  have r: "WithApollo rtB apolloConfig PageComponent props None wB =
             (Inr (ApolloProvider (JClient (length (clients wB))) PageComponent
                     (rest_without props {''apolloClient'', ''apolloState''})),
              Some (JClient (length (clients wB))), ?wB')"
    using WithApollo_initializes[OF assms(4,5,6,7,9,10), of PageComponent] by (simp add: st)
  have c: "client_cache ?wB' (length (clients wB)) = Some a"
    using constructor_options_default_cache[of cfg rtB a] assms(8)
    by (simp add: client_cache_def)
  have x: "client_cache_extract (length (clients wB)) ?wB' = Inr (JObj m)"
    unfolding client_cache_extract_def c
    by (simp add: cache_extract_def cache_restore_def)
  have k: "(a, caches ?wB') = cache_restore (instance_props rtB) (JObj m) a s1"
    by (simp add: cache_restore_def)
  from i e p r c x k show ?thesis
    by (intro exI[of _ clientS] exI[of _ w1] exI[of _ "JObj m"] exI[of _ ?wB']) simp
qed

text \<open>C6 from the server that fetches to a browser, with the plain configuration.\<close>

theorem snapshot_round_trip_witness:
  "fst (WithApollo_getServerSideProps fetching_runtime (ConfigObject plain_config) plain_page True
          example_context initial_world) =
     Inr [''apolloState'' \<mapsto> JObj [''ROOT_QUERY'' \<mapsto> JNum 1]] \<and>
   fst (WithApollo browser_runtime (ConfigObject plain_config) plain_page
          [''apolloState'' \<mapsto> JObj [''ROOT_QUERY'' \<mapsto> JNum 1]] None initial_world) =
     Inr (ApolloProvider (JClient 0) plain_page
            (rest_without [''apolloState'' \<mapsto> JObj [''ROOT_QUERY'' \<mapsto> JNum 1]]
               {''apolloClient'', ''apolloState''})) \<and>
   client_cache_extract 0
     (snd (snd (WithApollo browser_runtime (ConfigObject plain_config) plain_page
                  [''apolloState'' \<mapsto> JObj [''ROOT_QUERY'' \<mapsto> JNum 1]] None initial_world))) =
     Inr (JObj [''ROOT_QUERY'' \<mapsto> JNum 1])"
proof -
  let ?props = "[''apolloState'' \<mapsto> JObj [''ROOT_QUERY'' \<mapsto> JNum 1]]"
  have h1: "window_undefined fetching_runtime" by (simp add: fetching_runtime_def)
  have h3: "\<not> res_finished (example_context\<lparr>ctx_apolloClient := Some 0\<rparr>)"
    by (simp add: res_finished_def example_context_def)
  have h4: "\<not> window_undefined browser_runtime" by (simp add: browser_runtime_def)
  have h5: "apolloClient initial_world = None" "clients initial_world = []"
    by (simp_all add: initial_world_def)
  have h6: "\<not> truthy (get_prop ?props ''apolloClient'')" by (simp add: get_prop_def)
  have h7: "resolve_config (ConfigObject plain_config) None (caches initial_world) =
      (Inr plain_config, caches initial_world)"
    by (simp add: resolve_config_def)
  have h8: "plain_config ''cache'' = None" by (simp add: plain_config_def)
  from snapshot_round_trip[OF h1 fetched_snapshot h3 h4 h5(1) h6 h7 h8 plain_config_creates(1,2)]
  obtain snap wB' where s: "?props ''apolloState'' = Some snap"
    and w: "WithApollo browser_runtime (ConfigObject plain_config) plain_page ?props None
              initial_world =
             (Inr (ApolloProvider (JClient (length (clients initial_world))) plain_page
                     (rest_without ?props {''apolloClient'', ''apolloState''})),
              Some (JClient (length (clients initial_world))), wB')"
    and e: "client_cache_extract (length (clients initial_world)) wB' = Inr snap"
    by blast
  from s have "snap = JObj [''ROOT_QUERY'' \<mapsto> JNum 1]" by simp
  with e h5 show ?thesis by (simp add: w fetched_snapshot)
qed

text \<open>
  C7. When the configuration is a function, \<^verbatim>\<open>initApolloClient\<close> calls it with the
  request context it was given; if the function throws, so does the call, and otherwise
  the call goes on as with the configuration returned. A configuration that is an object
  is used as it is: on a server, and in a browser whose module variable is \<^verbatim>\<open>null\<close>, the
  client is created from it. The hook passes its request context, the component passes
  none.
\<close>

theorem config_function_called_with_context:
  "initApolloClient rt (ConfigFunction f) initialState ctx w =
     (case f ctx (caches w) of
        (Inl err, s0) \<Rightarrow> (Inl err, w\<lparr>caches := s0\<rparr>)
      | (Inr cfg, s0) \<Rightarrow>
          initApolloClient rt (ConfigObject cfg) initialState ctx (w\<lparr>caches := s0\<rparr>)) \<and>
   (window_undefined rt \<longrightarrow>
      initApolloClient rt (ConfigObject cfg) initialState ctx w =
        createApolloClient rt cfg (default_param initialState (JObj Map.empty)) w) \<and>
   (\<not> window_undefined rt \<and> apolloClient w = None \<longrightarrow>
      initApolloClient rt (ConfigObject cfg) initialState ctx w =
        (case createApolloClient rt cfg (default_param initialState (JObj Map.empty)) w of
           (Inl err, w') \<Rightarrow> (Inl err, w')
         | (Inr c, w') \<Rightarrow> (Inr c, w'\<lparr>apolloClient := Some c\<rparr>))) \<and>
   (\<forall>a s1.
      (window_undefined rt \<or> apolloClient w = None) \<and>
      call_factory (cache_factory cfg) (caches w) = (Inr a, s1) \<and>
      accepted (constructor_options rt cfg a) \<longrightarrow>
      fst (initApolloClient rt (ConfigObject cfg) initialState ctx w) = Inr (length (clients w)) \<and>
      clients (snd (initApolloClient rt (ConfigObject cfg) initialState ctx w)) =
        clients w @ [constructor_options rt cfg a]) \<and>
   WithApollo_getServerSideProps rt (ConfigFunction f) PageComponent ssr rctx w =
     (case f (Some rctx) (caches w) of
        (Inl err, s0) \<Rightarrow> (Inl err, rctx, w\<lparr>caches := s0\<rparr>)
      | (Inr cfg, s0) \<Rightarrow>
          WithApollo_getServerSideProps rt (ConfigObject cfg) PageComponent ssr rctx
            (w\<lparr>caches := s0\<rparr>)) \<and>
   (\<not> truthy (get_prop props ''apolloClient'') \<longrightarrow>
      WithApollo rt (ConfigFunction f) PageComponent props None w =
        (case f None (caches w) of
           (Inl err, s0) \<Rightarrow> (Inl err, None, w\<lparr>caches := s0\<rparr>)
         | (Inr cfg, s0) \<Rightarrow>
             WithApollo rt (ConfigObject cfg) PageComponent props None (w\<lparr>caches := s0\<rparr>)))"
proof -
  have rc: "resolve_config (ConfigObject cfg) ctx (caches w) = (Inr cfg, caches w)"
    by (simp add: resolve_config_def)
  have server: "window_undefined rt \<Longrightarrow>
      initApolloClient rt (ConfigObject cfg) initialState ctx w =
        createApolloClient rt cfg (default_param initialState (JObj Map.empty)) w"
    using initApolloClient_server[OF _ rc, of rt initialState] by simp
  have browser: "\<not> window_undefined rt \<Longrightarrow> apolloClient w = None \<Longrightarrow>
      initApolloClient rt (ConfigObject cfg) initialState ctx w =
        (case createApolloClient rt cfg (default_param initialState (JObj Map.empty)) w of
           (Inl err, w') \<Rightarrow> (Inl err, w')
         | (Inr c, w') \<Rightarrow> (Inr c, w'\<lparr>apolloClient := Some c\<rparr>))"
    using initApolloClient_browser_first[OF _ _ rc, of rt initialState] by simp
  have used: "fst (initApolloClient rt (ConfigObject cfg) initialState ctx w) = Inr (length (clients w)) \<and>
      clients (snd (initApolloClient rt (ConfigObject cfg) initialState ctx w)) =
        clients w @ [constructor_options rt cfg a]"
    if "window_undefined rt \<or> apolloClient w = None"
      and "call_factory (cache_factory cfg) (caches w) = (Inr a, s1)"
      and "accepted (constructor_options rt cfg a)" for a s1
  proof (cases "window_undefined rt")
    case True
    from initApolloClient_server_creates[OF True rc that(2,3), of initialState]
    show ?thesis by simp
  next
    case False
    with that(1) have n: "apolloClient w = None" by simp
    from initApolloClient_browser_creates[OF False n rc that(2,3), of initialState]
    show ?thesis by simp
  qed
  have hook: "WithApollo_getServerSideProps rt (ConfigFunction f) PageComponent ssr rctx w =
     (case f (Some rctx) (caches w) of
        (Inl err, s0) \<Rightarrow> (Inl err, rctx, w\<lparr>caches := s0\<rparr>)
      | (Inr cfg, s0) \<Rightarrow>
          WithApollo_getServerSideProps rt (ConfigObject cfg) PageComponent ssr rctx
            (w\<lparr>caches := s0\<rparr>))"
    unfolding WithApollo_getServerSideProps_def initApolloClient_function
    by (simp split: prod.split sum.split)
  have mount: "WithApollo rt (ConfigFunction f) PageComponent props None w =
        (case f None (caches w) of
           (Inl err, s0) \<Rightarrow> (Inl err, None, w\<lparr>caches := s0\<rparr>)
         | (Inr cfg, s0) \<Rightarrow>
             WithApollo rt (ConfigObject cfg) PageComponent props None (w\<lparr>caches := s0\<rparr>))"
    if "\<not> truthy (get_prop props ''apolloClient'')"
    unfolding WithApollo_absent[OF that] initApolloClient_function
    by (simp split: prod.split sum.split)
  show ?thesis
    using server browser used hook mount
    by (simp add: initApolloClient_function)
qed

text \<open>C7 for a function that chooses the configuration by the request context.\<close>

theorem config_function_called_with_context_witness:
  "initApolloClient failing_runtime (ConfigFunction config_by_context) JNull
     (Some example_context) initial_world =
   initApolloClient failing_runtime (ConfigObject custom_config) JNull (Some example_context)
     initial_world \<and>
   fst (initApolloClient failing_runtime (ConfigFunction config_by_context) JNull
          (Some example_context) initial_world) = Inr 0 \<and>
   clients (snd (initApolloClient failing_runtime (ConfigFunction config_by_context) JNull
                   (Some example_context) initial_world)) =
     [constructor_options failing_runtime custom_config 0] \<and>
   initApolloClient failing_runtime (ConfigFunction config_by_context) JNull None initial_world =
   initApolloClient failing_runtime (ConfigObject plain_config) JNull None initial_world \<and>
   clients (snd (initApolloClient failing_runtime (ConfigFunction config_by_context) JNull None
                   initial_world)) =
     [constructor_options failing_runtime plain_config 0]"
proof -
  have w: "window_undefined failing_runtime" by (simp add: failing_runtime_def)
  have c: "config_by_context (Some example_context) (caches initial_world) =
      (Inr custom_config, caches initial_world)"
    "config_by_context None (caches initial_world) = (Inr plain_config, caches initial_world)"
    by (simp_all add: config_by_context_def)
  have l: "clients initial_world = []" "next_cache (caches initial_world) = 0"
    by (simp_all add: initial_world_def)
  note a = config_function_called_with_context[of failing_runtime config_by_context JNull
      "Some example_context" initial_world custom_config]
  note b = config_function_called_with_context[of failing_runtime config_by_context JNull
      None initial_world plain_config]
  from a c(1) have a1: "initApolloClient failing_runtime (ConfigFunction config_by_context) JNull
     (Some example_context) initial_world =
     initApolloClient failing_runtime (ConfigObject custom_config) JNull (Some example_context)
     initial_world"
    by simp
  from b c(2) have b1: "initApolloClient failing_runtime (ConfigFunction config_by_context) JNull
     None initial_world =
     initApolloClient failing_runtime (ConfigObject plain_config) JNull None initial_world"
    by simp
  from a w custom_config_creates(1)[of "caches initial_world"]
    custom_config_creates(2)[of failing_runtime "next_cache (caches initial_world)"]
  have a2: "fst (initApolloClient failing_runtime (ConfigObject custom_config) JNull
      (Some example_context) initial_world) = Inr (length (clients initial_world))"
    "clients (snd (initApolloClient failing_runtime (ConfigObject custom_config) JNull
      (Some example_context) initial_world)) =
      clients initial_world @
        [constructor_options failing_runtime custom_config (next_cache (caches initial_world))]"
    by blast+
  from b w plain_config_creates(1)[of "caches initial_world"]
    plain_config_creates(2)[of failing_runtime "next_cache (caches initial_world)"]
  have b2: "clients (snd (initApolloClient failing_runtime (ConfigObject plain_config) JNull
      None initial_world)) =
      clients initial_world @
        [constructor_options failing_runtime plain_config (next_cache (caches initial_world))]"
    by blast
  show ?thesis
    unfolding a1 b1 using a2 b2 l by simp
qed




text \<open>
  C9. On a server, when the client was initialized and the response of the request
  context is finished after the wrapped \<^verbatim>\<open>getServerSideProps\<close> (if any) has returned, the
  hook returns the page properties unchanged: no \<^verbatim>\<open>apolloState\<close> is added, and no call is
  made to \<^verbatim>\<open>getDataFromTree\<close>, the console or \<^verbatim>\<open>Head.rewind\<close>.
\<close>

theorem hook_returns_page_props_on_redirect:
  assumes "window_undefined rt"
    and "initApolloClient rt apolloConfig JNull (Some ctx) w = (Inr client, w1)"
    and "wrapped_getServerSideProps PageComponent (ctx\<lparr>ctx_apolloClient := Some client\<rparr>)
           (caches w1) = (Inr pageProps, ctx2, s2)"
    and "res_finished ctx2"
  shows "WithApollo_getServerSideProps rt apolloConfig PageComponent ssr ctx w =
           (Inr pageProps, ctx2, w1\<lparr>caches := s2\<rparr>) \<and>
         trace (w1\<lparr>caches := s2\<rparr>) = trace w"
  using assms initApolloClient_trace[of rt apolloConfig JNull "Some ctx" w]
  by (simp add: hook_eq[OF assms(2,3)])

text \<open>C9 on a server, for a page that redirects.\<close>

theorem hook_returns_page_props_on_redirect_witness:
  "initApolloClient failing_runtime (ConfigObject plain_config) JNull (Some example_context)
     initial_world =
     (Inr 0,
      \<lparr>apolloClient = None, clients = [constructor_options failing_runtime plain_config 0],
       caches = \<lparr>cache_data = (\<lambda>_. Map.empty), next_cache = Suc 0\<rparr>, trace = []\<rparr>) \<and>
   WithApollo_getServerSideProps failing_runtime (ConfigObject plain_config) redirecting_page
     True example_context initial_world =
     (Inr [''user'' \<mapsto> JNull],
      example_context\<lparr>ctx_apolloClient := Some 0, res := Some \<lparr>finished = True\<rparr>\<rparr>,
      \<lparr>apolloClient = None, clients = [constructor_options failing_runtime plain_config 0],
       caches = \<lparr>cache_data = (\<lambda>_. Map.empty), next_cache = Suc 0\<rparr>, trace = []\<rparr>)"
proof -
  let ?w1 = "\<lparr>apolloClient = None, clients = [constructor_options failing_runtime plain_config 0],
       caches = \<lparr>cache_data = (\<lambda>_. Map.empty), next_cache = Suc 0\<rparr>, trace = []\<rparr>"
  have h1: "window_undefined failing_runtime" by (simp add: failing_runtime_def)
  have h2: "initApolloClient failing_runtime (ConfigObject plain_config) JNull (Some example_context)
     initial_world = (Inr 0, ?w1)"
    using plain_first_client[of failing_runtime "Some example_context"] h1 by simp
  have h3: "wrapped_getServerSideProps redirecting_page
              (example_context\<lparr>ctx_apolloClient := Some 0\<rparr>) (caches ?w1) =
            (Inr [''user'' \<mapsto> JNull],
             example_context\<lparr>ctx_apolloClient := Some 0, res := Some \<lparr>finished = True\<rparr>\<rparr>,
             caches ?w1)"
    by (simp add: wrapped_getServerSideProps_def redirecting_page_def)
  have h4: "res_finished
      (example_context\<lparr>ctx_apolloClient := Some 0, res := Some \<lparr>finished = True\<rparr>\<rparr>)"
    by (simp add: res_finished_def)
  from hook_returns_page_props_on_redirect[OF h1 h2 h3 h4, of True] h2
  show ?thesis by simp
qed

text \<open>
  C10. When the cache factory returns, \<^verbatim>\<open>createApolloClient\<close> calls the constructor with
  an object that has no \<^verbatim>\<open>createCache\<close> key, has every other key of the configuration with
  its value, has \<^verbatim>\<open>ssrMode\<close> and \<^verbatim>\<open>cache\<close> as the code sets them only where the
  configuration has none, and has no other key; the client is constructed when the
  constructor accepts this object. A \<^verbatim>\<open>null\<close> initial state restores the cache as the
  empty snapshot does.
\<close>

theorem createApolloClient_constructor_config:
  assumes "call_factory (cache_factory apolloConfig) (caches w) = (Inr a, s1)"
  shows
    "(let passed = constructor_options rt apolloConfig a;
          s2 = snd (cache_restore (instance_props rt)
                      (or_else (default_param initialState (JObj Map.empty)) (JObj Map.empty)) a s1)
      in createApolloClient rt apolloConfig initialState w =
           new_ApolloClient passed (w\<lparr>caches := s2\<rparr>) \<and>
         passed ''createCache'' = None \<and>
         (\<forall>k v. k \<noteq> ''createCache'' \<and> apolloConfig k = Some v \<longrightarrow> passed k = Some v) \<and>
         (apolloConfig ''ssrMode'' = None \<longrightarrow>
            passed ''ssrMode'' = Some (Value (JBool (window_undefined rt)))) \<and>
         (apolloConfig ''cache'' = None \<longrightarrow> passed ''cache'' = Some (Cache a)) \<and>
         (\<forall>k. k \<noteq> ''ssrMode'' \<and> k \<noteq> ''cache'' \<and> apolloConfig k = None \<longrightarrow> passed k = None) \<and>
         (accepted passed \<longrightarrow>
            createApolloClient rt apolloConfig initialState w =
              (Inr (length (clients w)), w\<lparr>caches := s2, clients := clients w @ [passed]\<rparr>))) \<and>
     createApolloClient rt apolloConfig JNull w =
       createApolloClient rt apolloConfig (JObj Map.empty) w \<and>
     createApolloClient rt apolloConfig JNull w =
       new_ApolloClient (constructor_options rt apolloConfig a)
         (w\<lparr>caches := s1\<lparr>cache_data := (cache_data s1)(a := Map.empty)\<rparr>\<rparr>)"
proof -
  have keys: "constructor_options rt apolloConfig a ''createCache'' = None"
    "\<And>k v. k \<noteq> ''createCache'' \<Longrightarrow> apolloConfig k = Some v \<Longrightarrow>
       constructor_options rt apolloConfig a k = Some v"
    "apolloConfig ''ssrMode'' = None \<Longrightarrow>
       constructor_options rt apolloConfig a ''ssrMode'' = Some (Value (JBool (window_undefined rt)))"
    "apolloConfig ''cache'' = None \<Longrightarrow> constructor_options rt apolloConfig a ''cache'' = Some (Cache a)"
    "\<And>k. k \<noteq> ''ssrMode'' \<Longrightarrow> k \<noteq> ''cache'' \<Longrightarrow> apolloConfig k = None \<Longrightarrow>
       constructor_options rt apolloConfig a k = None"
    by (simp_all add: constructor_options_def map_add_def)
  have passes: "createApolloClient rt apolloConfig st w =
      new_ApolloClient (constructor_options rt apolloConfig a)
        (w\<lparr>caches := snd (cache_restore (instance_props rt)
                            (or_else (default_param st (JObj Map.empty)) (JObj Map.empty)) a s1)\<rparr>)" for st
    using assms by (simp add: createApolloClient_eq)
  have null: "snd (cache_restore (instance_props rt)
                    (or_else (default_param JNull (JObj Map.empty)) (JObj Map.empty)) a s1) =
              s1\<lparr>cache_data := (cache_data s1)(a := Map.empty)\<rparr>"
    "snd (cache_restore (instance_props rt)
            (or_else (default_param (JObj Map.empty) (JObj Map.empty)) (JObj Map.empty)) a s1) =
     s1\<lparr>cache_data := (cache_data s1)(a := Map.empty)\<rparr>"
    by (simp_all add: cache_restore_def or_else_def default_param_def)
  show ?thesis
    unfolding Let_def
    using keys
    by (simp add: passes null new_ApolloClient_accepted)
qed

text \<open>C10 in a browser, for a configuration with its own \<^verbatim>\<open>createCache\<close> and \<^verbatim>\<open>ssrMode\<close>.\<close>

theorem createApolloClient_constructor_config_witness:
  "(let r = createApolloClient browser_runtime custom_config JNull initial_world
    in fst r = Inr 0 \<and>
       clients (snd r) = [constructor_options browser_runtime custom_config 0] \<and>
       (clients (snd r) ! 0) ''createCache'' = None \<and>
       (clients (snd r) ! 0) ''link'' = Some http_link \<and>
       (clients (snd r) ! 0) ''ssrMode'' = Some (Value (JBool False)) \<and>
       (clients (snd r) ! 0) ''cache'' = Some (Cache 0) \<and>
       cache_data (caches (snd r)) 0 = Map.empty)"
proof -
  have f: "call_factory (cache_factory custom_config) (caches initial_world) =
      (Inr 0, snd (new_InMemoryCache (caches initial_world)))"
    using custom_config_creates(1)[of "caches initial_world"] by (simp add: initial_world_def)
  have c: "custom_config ''link'' = Some http_link"
    "custom_config ''ssrMode'' = Some (Value (JBool False))" "custom_config ''cache'' = None"
    by (simp_all add: custom_config_def)
  have l: "clients initial_world = []" by (simp add: initial_world_def)
  note t = createApolloClient_constructor_config[OF f, of browser_runtime JNull, unfolded Let_def]
  from t custom_config_creates(2)[of browser_runtime 0]
  have r: "createApolloClient browser_runtime custom_config JNull initial_world =
      (Inr (length (clients initial_world)),
       initial_world\<lparr>caches := snd (cache_restore (instance_props browser_runtime)
           (or_else (default_param JNull (JObj Map.empty)) (JObj Map.empty)) 0
           (snd (new_InMemoryCache (caches initial_world)))),
         clients := clients initial_world @ [constructor_options browser_runtime custom_config 0]\<rparr>)"
    by blast
  from t c have k: "constructor_options browser_runtime custom_config 0 ''createCache'' = None"
    "constructor_options browser_runtime custom_config 0 ''link'' = Some http_link"
    "constructor_options browser_runtime custom_config 0 ''ssrMode'' = Some (Value (JBool False))"
    "constructor_options browser_runtime custom_config 0 ''cache'' = Some (Cache 0)"
    by simp_all
  show ?thesis
    unfolding Let_def r using k l
    by (simp add: cache_restore_def or_else_def default_param_def new_InMemoryCache_def)
qed

end
